theory Spec2Isabelle
  imports
    Main
    "HOL-Library.Char_ord"
    "HOL-Library.List_Lexorder"
    "HOL-Library.Option_ord"
    "HOL-Library.Product_Lexorder"
    "HOL-Library.Multiset"
begin

section \<open>The curriculum exporter (scripts/export-curriculum.py)\<close>

text \<open>
  The script reads five tables of a SQLite database with two queries, builds a lookup
  from (module, day number) to the homework of that day, turns every row of the first
  query into one chunk whose \<open>searchable_content\<close> is a newline-joined list of lines,
  writes the chunks as JSON and prints a summary.

  Strings are byte strings (UTF-8), as SQLite stores and compares them. Every nullable
  column is an \<open>option\<close>; \<open>None\<close> is SQL NULL and Python \<open>None\<close>.
\<close>

subsection \<open>Python strings\<close>

definition digit_char :: "nat \<Rightarrow> char" where
  "digit_char n = char_of (48 + n)"

function py_str_nat :: "nat \<Rightarrow> string" where
  "py_str_nat n = (if n < 10 then [digit_char n] else py_str_nat (n div 10) @ [digit_char (n mod 10)])"
  by pat_completeness auto
termination
  by (relation "measure (\<lambda>n. n)") auto

declare py_str_nat.simps [simp del]

text \<open>\<open>str(i)\<close> of a Python int.\<close>

definition py_str_int :: "int \<Rightarrow> string" where
  "py_str_int i = (if i < 0 then CHR ''-'' # py_str_nat (nat (- i)) else py_str_nat (nat i))"

text \<open>What an f-string writes for a value that may be \<open>None\<close>.\<close>

definition fmt_str :: "string option \<Rightarrow> string" where
  "fmt_str v = (case v of None \<Rightarrow> ''None'' | Some s \<Rightarrow> s)"

definition fmt_int :: "int option \<Rightarrow> string" where
  "fmt_int v = (case v of None \<Rightarrow> ''None'' | Some i \<Rightarrow> py_str_int i)"

text \<open>Truthiness of a value that is \<open>None\<close> or a string: \<open>if v:\<close>.\<close>

definition truthy :: "string option \<Rightarrow> bool" where
  "truthy v = (case v of None \<Rightarrow> False | Some s \<Rightarrow> s \<noteq> [])"

text \<open>\<open>sep.join(xs)\<close>.\<close>

fun join :: "string \<Rightarrow> string list \<Rightarrow> string" where
  "join sep [] = []"
| "join sep [x] = x"
| "join sep (x # y # ys) = x @ sep @ join sep (y # ys)"

definition newline :: string where
  "newline = [CHR 0x0A]"

subsection \<open>The tables\<close>

text \<open>
  Modelled from the spec: the table declarations are in the database file, not in the
  repository. The columns are those the two queries name; their types follow section 3
  of the specification (identifiers and numbers are integers, the rest is text). An
  \<open>id\<close> is a primary key and never NULL; every other column may be NULL. A table is
  the list of its rows in storage order.
\<close>

record day =
  d_id :: int
  d_module :: "string option"
  d_day_number :: "int option"
  d_theme :: "string option"

record learning_block =
  lb_id :: int
  lb_focus :: "string option"

record activity =
  a_id :: int
  a_day_id :: "int option"
  a_block_id :: "int option"
  a_name :: "string option"
  a_sequence_order :: "int option"
  a_purpose :: "string option"
  a_duration :: "string option"
  a_facilitator_script :: "string option"
  a_transition_script :: "string option"

record homework_assignment =
  ha_id :: int
  ha_day_id :: "int option"
  ha_title :: "string option"

record homework_task =
  ht_assignment_id :: "int option"
  ht_task :: "string option"

record database =
  days :: "day list"
  learning_blocks :: "learning_block list"
  activities :: "activity list"
  homework_assignments :: "homework_assignment list"
  homework_tasks :: "homework_task list"

subsection \<open>The two queries\<close>

text \<open>
  \<open>xs LEFT JOIN ys ON on\<close>: every row of \<open>xs\<close> with each matching row of \<open>ys\<close>, or
  once with NULLs when nothing matches.
\<close>

definition left_join :: "'a list \<Rightarrow> ('a \<Rightarrow> 'b \<Rightarrow> bool) \<Rightarrow> 'b list \<Rightarrow> ('a \<times> 'b option) list" where
  "left_join xs on ys =
     concat (map (\<lambda>x. let ms = filter (on x) ys
                        in if ms = [] then [(x, None)] else map (\<lambda>y. (x, Some y)) ms) xs)"

text \<open>The rows of the first query.\<close>

record activity_row =
  activity_id :: int
  module :: "string option"
  day_number :: "int option"
  day_theme :: "string option"
  activity_name :: "string option"
  sequence_order :: "int option"
  purpose :: "string option"
  duration :: "string option"
  facilitator_script :: "string option"
  transition_script :: "string option"
  learning_block_focus :: "string option"

type_synonym activity_join = "(activity \<times> day option) \<times> learning_block option"

text \<open>
  \<open>FROM activities a LEFT JOIN days d ON a.day_id = d.id
     LEFT JOIN learning_blocks lb ON a.block_id = lb.id\<close>.
  A NULL foreign key equals nothing.
\<close>

definition activities_from :: "database \<Rightarrow> activity_join list" where
  "activities_from db =
     left_join
       (left_join (activities db) (\<lambda>a d. a_day_id a = Some (d_id d)) (days db))
       (\<lambda>ad lb. a_block_id (fst ad) = Some (lb_id lb))
       (learning_blocks db)"

text \<open>\<open>WHERE d.module IS NOT NULL\<close>.\<close>

definition activities_where :: "activity_join \<Rightarrow> bool" where
  "activities_where j = (case snd (fst j) of None \<Rightarrow> False | Some d \<Rightarrow> d_module d \<noteq> None)"

definition activities_select :: "activity_join \<Rightarrow> activity_row" where
  "activities_select j =
     (let a = fst (fst j); d = snd (fst j); lb = snd j in
      \<lparr> activity_id = a_id a,
        module = Option.bind d d_module,
        day_number = Option.bind d d_day_number,
        day_theme = Option.bind d d_theme,
        activity_name = a_name a,
        sequence_order = a_sequence_order a,
        purpose = a_purpose a,
        duration = a_duration a,
        facilitator_script = a_facilitator_script a,
        transition_script = a_transition_script a,
        learning_block_focus = Option.bind lb lb_focus \<rparr>)"

text \<open>
  \<open>ORDER BY d.module, d.day_number, a.sequence_order\<close>: ascending, NULL first, text
  compared bytewise. SQL leaves the order of rows with equal keys to the engine; here
  they keep the order of the join.
\<close>

definition order_key :: "activity_row \<Rightarrow> string option \<times> int option \<times> int option" where
  "order_key r = (module r, day_number r, sequence_order r)"

definition activities_query :: "database \<Rightarrow> activity_row list" where
  "activities_query db =
     sort_key order_key (map activities_select (filter activities_where (activities_from db)))"

text \<open>The rows of the second query.\<close>

record homework_row =
  h_day_id :: int
  h_module :: "string option"
  h_day_number :: "int option"
  h_homework_title :: "string option"
  h_homework_tasks :: "string option"

type_synonym homework_join = "(day \<times> homework_assignment option) \<times> homework_task option"

text \<open>
  \<open>FROM days d LEFT JOIN homework_assignments ha ON ha.day_id = d.id
     LEFT JOIN homework_tasks ht ON ht.assignment_id = ha.id
     WHERE d.module IS NOT NULL\<close>.
\<close>

definition homework_from :: "database \<Rightarrow> homework_join list" where
  "homework_from db =
     left_join
       (left_join (days db) (\<lambda>d ha. ha_day_id ha = Some (d_id d)) (homework_assignments db))
       (\<lambda>dha ht. case snd dha of None \<Rightarrow> False | Some ha \<Rightarrow> ht_assignment_id ht = Some (ha_id ha))
       (homework_tasks db)"

definition homework_where :: "homework_join \<Rightarrow> bool" where
  "homework_where j = (d_module (fst (fst j)) \<noteq> None)"

text \<open>\<open>GROUP BY d.id, d.module, d.day_number, ha.title\<close>; NULL titles form one group.\<close>

type_synonym group_key = "int \<times> string option \<times> int option \<times> string option"

definition group_key_of :: "homework_join \<Rightarrow> group_key" where
  "group_key_of j =
     (let d = fst (fst j); ha = snd (fst j)
      in (d_id d, d_module d, d_day_number d, Option.bind ha ha_title))"

text \<open>\<open>GROUP_CONCAT(x, sep)\<close>: the non-NULL values joined by \<open>sep\<close>, NULL when there is none.\<close>

definition group_concat :: "string option list \<Rightarrow> string \<Rightarrow> string option" where
  "group_concat vs sep =
     (let ts = List.map_filter (\<lambda>v. v) vs in if ts = [] then None else Some (join sep ts))"

definition homework_select :: "homework_join list \<Rightarrow> group_key \<Rightarrow> homework_row" where
  "homework_select js k =
     (let g = filter (\<lambda>j. group_key_of j = k) js in
      \<lparr> h_day_id = fst k,
        h_module = fst (snd k),
        h_day_number = fst (snd (snd k)),
        h_homework_title = snd (snd (snd k)),
        h_homework_tasks = group_concat (map (\<lambda>j. Option.bind (snd j) ht_task) g) '' | '' \<rparr>)"

text \<open>
  The query has no ORDER BY inside the aggregate, so SQL leaves to the engine the order
  in which the rows of the join reach \<open>GROUP_CONCAT\<close>: it depends on the plan the engine
  chooses, on the indexes of the database and on the version of the engine. That choice
  is a parameter of the model. An engine gives every position of the join a rank; the
  rows are scanned by ascending rank, rows of equal rank in the order of the join. The
  constant rank scans in the order of the join, and every order of the rows is the scan
  of some rank.
\<close>

type_synonym engine = "nat \<Rightarrow> int"

definition scan_order :: "engine \<Rightarrow> 'a list \<Rightarrow> 'a list" where
  "scan_order eng js = map snd (sort_key (\<lambda>p. eng (fst p)) (enumerate 0 js))"

text \<open>
  One row per group, the values inside a group in the order of the scan. SQL leaves the
  order of the groups to the engine as well; here they come out in the order of their
  keys (the engine sorts to group).
\<close>

definition homework_query :: "engine \<Rightarrow> database \<Rightarrow> homework_row list" where
  "homework_query eng db =
     (let js = filter homework_where (homework_from db)
      in map (homework_select (scan_order eng js)) (remdups (sort (map group_key_of js))))"

subsection \<open>The homework lookup\<close>

datatype error = TypeError

type_synonym day_key = "string option \<times> int option"

record hw_item =
  title :: string
  tasks :: string

text \<open>
  One turn of the loop over \<open>homework_rows\<close>: the key gets an empty list when it is new,
  and an entry is appended when the title is truthy. \<open>row["homework_tasks"] or ""\<close>
  turns NULL into the empty string.
\<close>

definition homework_step :: "homework_row \<Rightarrow> (day_key \<rightharpoonup> hw_item list) \<Rightarrow> (day_key \<rightharpoonup> hw_item list)" where
  "homework_step row m =
     (let key = (h_module row, h_day_number row);
          m1 = (if m key = None then m(key \<mapsto> []) else m)
      in if truthy (h_homework_title row)
         then m1(key \<mapsto> (case m1 key of None \<Rightarrow> [] | Some items \<Rightarrow> items) @
                [\<lparr> title = fmt_str (h_homework_title row),
                   tasks = (if truthy (h_homework_tasks row) then fmt_str (h_homework_tasks row) else []) \<rparr>])
         else m1)"

fun build_homework_by_day :: "homework_row list \<Rightarrow> (day_key \<rightharpoonup> hw_item list) \<Rightarrow> (day_key \<rightharpoonup> hw_item list)" where
  "build_homework_by_day [] m = m"
| "build_homework_by_day (row # rows) m = build_homework_by_day rows (homework_step row m)"

definition homework_by_day :: "homework_row list \<Rightarrow> (day_key \<rightharpoonup> hw_item list)" where
  "homework_by_day homework_rows = build_homework_by_day homework_rows Map.empty"

subsection \<open>Chunk assembly\<close>

record chunk =
  c_id :: string
  c_content_type :: string
  c_module :: "string option"
  c_day :: "int option"
  c_day_theme :: "string option"
  c_session_number :: "int option"
  c_activity_name :: "string option"
  c_purpose :: "string option"
  c_duration :: "string option"
  c_searchable_content :: string
  c_facilitator_script :: "string option"
  c_transition_script :: "string option"

text \<open>The three lines every activity gets.\<close>

definition header_parts :: "activity_row \<Rightarrow> string list" where
  "header_parts a =
     [''Module: '' @ fmt_str (module a),
      ''Day '' @ fmt_int (day_number a) @ '': '' @ fmt_str (day_theme a),
      ''Session '' @ fmt_int (sequence_order a) @ '': '' @ fmt_str (activity_name a)]"

text \<open>\<open>if v: content_parts.append(f"label{v}")\<close>.\<close>

definition optional_part :: "string \<Rightarrow> string option \<Rightarrow> string list" where
  "optional_part label v = (if truthy v then [label @ fmt_str v] else [])"

definition optional_parts :: "activity_row \<Rightarrow> string list" where
  "optional_parts a =
     optional_part ''Learning Block Focus: '' (learning_block_focus a) @
     optional_part ''Purpose: '' (purpose a) @
     optional_part ''Duration: '' (duration a) @
     optional_part ''Facilitator Script: '' (facilitator_script a) @
     optional_part ''Transition: '' (transition_script a)"

definition hw_text :: "hw_item list \<Rightarrow> string" where
  "hw_text hw_items =
     join ''; '' (map (\<lambda>hw. title hw @ '': '' @ tasks hw) (filter (\<lambda>hw. title hw \<noteq> []) hw_items))"

text \<open>
  The homework block. \<open>and\<close> short-cuts: the sequence order is compared with 3 only when
  the key is in the lookup, and comparing \<open>None\<close> with a number raises TypeError.
\<close>

definition homework_parts :: "(day_key \<rightharpoonup> hw_item list) \<Rightarrow> activity_row \<Rightarrow> error + string list" where
  "homework_parts hbd a =
     (let day_key = (module a, day_number a) in
      case hbd day_key of
        None \<Rightarrow> Inr []
      | Some hw_items \<Rightarrow>
          (case sequence_order a of
             None \<Rightarrow> Inl TypeError
           | Some n \<Rightarrow>
               if n \<ge> 3 \<and> hw_items \<noteq> [] then Inr [''Homework: '' @ hw_text hw_items] else Inr []))"

definition content_parts :: "(day_key \<rightharpoonup> hw_item list) \<Rightarrow> activity_row \<Rightarrow> error + string list" where
  "content_parts hbd a =
     (case homework_parts hbd a of
        Inl e \<Rightarrow> Inl e
      | Inr hw \<Rightarrow> Inr (header_parts a @ optional_parts a @ hw))"

definition build_chunk :: "(day_key \<rightharpoonup> hw_item list) \<Rightarrow> activity_row \<Rightarrow> error + chunk" where
  "build_chunk hbd a =
     (case content_parts hbd a of
        Inl e \<Rightarrow> Inl e
      | Inr parts \<Rightarrow>
          Inr \<lparr> c_id = ''curr-'' @ py_str_int (activity_id a),
                c_content_type = ''curriculum_activity'',
                c_module = module a,
                c_day = day_number a,
                c_day_theme = day_theme a,
                c_session_number = sequence_order a,
                c_activity_name = activity_name a,
                c_purpose = purpose a,
                c_duration = duration a,
                c_searchable_content = join newline parts,
                c_facilitator_script = facilitator_script a,
                c_transition_script = transition_script a \<rparr>)"

text \<open>The loop over the activities; an exception ends the run.\<close>

fun build_chunks :: "(day_key \<rightharpoonup> hw_item list) \<Rightarrow> activity_row list \<Rightarrow> error + chunk list" where
  "build_chunks hbd [] = Inr []"
| "build_chunks hbd (a # rest) =
     (case build_chunk hbd a of
        Inl e \<Rightarrow> Inl e
      | Inr c \<Rightarrow> (case build_chunks hbd rest of Inl e \<Rightarrow> Inl e | Inr cs \<Rightarrow> Inr (c # cs)))"

definition export_chunks :: "engine \<Rightarrow> database \<Rightarrow> error + chunk list" where
  "export_chunks eng db = build_chunks (homework_by_day (homework_query eng db)) (activities_query db)"

subsection \<open>The output: JSON file and printed summary\<close>

datatype json = JNull | JInt int | JStr string | JArr "json list" | JObj "(string \<times> json) list"

definition hex_char :: "nat \<Rightarrow> char" where
  "hex_char n = (if n < 10 then char_of (48 + n) else char_of (87 + n))"

text \<open>
  String escaping of \<open>json.dump\<close> with \<open>ensure_ascii=False\<close>: quote, backslash and the
  control characters below 0x20 are escaped, everything else is written as it is.
\<close>

definition json_escape :: "char \<Rightarrow> string" where
  "json_escape c =
     (if c = CHR 0x22 then [CHR 0x5C, CHR 0x22]
      else if c = CHR 0x5C then [CHR 0x5C, CHR 0x5C]
      else if c = CHR 0x0A then [CHR 0x5C, CHR ''n'']
      else if c = CHR 0x0D then [CHR 0x5C, CHR ''r'']
      else if c = CHR 0x09 then [CHR 0x5C, CHR ''t'']
      else if c = CHR 0x08 then [CHR 0x5C, CHR ''b'']
      else if c = CHR 0x0C then [CHR 0x5C, CHR ''f'']
      else if (of_char c :: nat) < 32
        then [CHR 0x5C, CHR ''u'', CHR ''0'', CHR ''0'', hex_char (of_char c div 16), hex_char (of_char c mod 16)]
      else [c])"

definition json_string :: "string \<Rightarrow> string" where
  "json_string s = CHR 0x22 # concat (map json_escape s) @ [CHR 0x22]"

definition newline_indent :: "nat \<Rightarrow> string" where
  "newline_indent level = newline @ replicate (2 * level) CHR '' ''"

text \<open>\<open>json.dumps(v, indent=2)\<close> at a nesting level.\<close>

fun json_encode :: "nat \<Rightarrow> json \<Rightarrow> string" where
  "json_encode level JNull = ''null''"
| "json_encode level (JInt i) = py_str_int i"
| "json_encode level (JStr s) = json_string s"
| "json_encode level (JArr xs) =
     (if xs = [] then ''[]''
      else ''['' @ newline_indent (Suc level) @
           join ('','' @ newline_indent (Suc level)) (map (json_encode (Suc level)) xs) @
           newline_indent level @ '']'')"
| "json_encode level (JObj kvs) =
     (if kvs = [] then ''{}''
      else ''{'' @ newline_indent (Suc level) @
           join ('','' @ newline_indent (Suc level))
             (map (\<lambda>kv. json_string (fst kv) @ '': '' @ json_encode (Suc level) (snd kv)) kvs) @
           newline_indent level @ ''}'')"

definition json_opt_str :: "string option \<Rightarrow> json" where
  "json_opt_str v = (case v of None \<Rightarrow> JNull | Some s \<Rightarrow> JStr s)"

definition json_opt_int :: "int option \<Rightarrow> json" where
  "json_opt_int v = (case v of None \<Rightarrow> JNull | Some i \<Rightarrow> JInt i)"

definition chunk_json :: "chunk \<Rightarrow> json" where
  "chunk_json c =
     JObj [(''id'', JStr (c_id c)),
           (''content_type'', JStr (c_content_type c)),
           (''module'', json_opt_str (c_module c)),
           (''day'', json_opt_int (c_day c)),
           (''day_theme'', json_opt_str (c_day_theme c)),
           (''session_number'', json_opt_int (c_session_number c)),
           (''activity_name'', json_opt_str (c_activity_name c)),
           (''purpose'', json_opt_str (c_purpose c)),
           (''duration'', json_opt_str (c_duration c)),
           (''searchable_content'', JStr (c_searchable_content c)),
           (''facilitator_script'', json_opt_str (c_facilitator_script c)),
           (''transition_script'', json_opt_str (c_transition_script c))]"

definition json_dump :: "chunk list \<Rightarrow> string" where
  "json_dump chunks = json_encode 0 (JArr (map chunk_json chunks))"

definition breakdown_modules :: "string list" where
  "breakdown_modules = [''Architecture'', ''Solar'', ''Insulation'']"

definition breakdown_line :: "chunk list \<Rightarrow> string \<Rightarrow> string" where
  "breakdown_line chunks m =
     ''  '' @ m @ '': '' @ py_str_int (int (length (filter (\<lambda>c. c_module c = Some m) chunks))) @ '' activities''"

text \<open>
  What the prints write to standard output, each followed by a newline. The first
  message starts with the seven bytes the source file has before \<open>Exported\<close>.
\<close>

definition summary :: "string \<Rightarrow> chunk list \<Rightarrow> string" where
  "summary output_path chunks =
     [CHR 0xC3, CHR 0xA2, CHR 0xC5, CHR 0x93, CHR 0xE2, CHR 0x80, CHR 0xA6] @
     '' Exported '' @ py_str_int (int (length chunks)) @ '' curriculum activities to '' @ output_path @ newline @
     newline @ ''Breakdown:'' @ newline @
     concat (map (\<lambda>m. breakdown_line chunks m @ newline) breakdown_modules)"

text \<open>
  The world outside the program: the content of the output file (\<open>None\<close> while it does
  not exist) and what has been printed so far.
\<close>

record world =
  w_file :: "string option"
  w_stdout :: string

text \<open>
  The whole run as a step on the world, with the engine and the path of the output
  file as parameters. The file is opened with mode \<open>"w"\<close>, which discards what it held, and
  receives the JSON of the chunks; the summary is printed after it. A TypeError leaves
  the loop before the file is opened and before anything is printed.
\<close>

definition export_curriculum :: "engine \<Rightarrow> string \<Rightarrow> database \<Rightarrow> world \<Rightarrow> error + world" where
  "export_curriculum eng output_path db w =
     (case export_chunks eng db of
        Inl e \<Rightarrow> Inl e
      | Inr chunks \<Rightarrow>
          Inr \<lparr> w_file = Some (json_dump chunks),
                w_stdout = w_stdout w @ summary output_path chunks \<rparr>)"

section \<open>Vocabulary of the properties\<close>

subsection \<open>Predicates and expected values\<close>

text \<open>The dictionary key of a row of the homework query, and the entry a titled row adds.\<close>

definition row_key :: "homework_row \<Rightarrow> day_key" where
  "row_key r = (h_module r, h_day_number r)"

definition row_item :: "homework_row \<Rightarrow> hw_item" where
  "row_item r = \<lparr> title = fmt_str (h_homework_title r),
                  tasks = (case h_homework_tasks r of None \<Rightarrow> [] | Some s \<Rightarrow> s) \<rparr>"

text \<open>The rows of a key whose title is truthy, in the order of the rows.\<close>

definition titled_rows :: "homework_row list \<Rightarrow> day_key \<Rightarrow> homework_row list" where
  "titled_rows rows k = filter (\<lambda>r. row_key r = k \<and> truthy (h_homework_title r)) rows"

text \<open>
  A Homework line is an element of \<open>content_parts\<close> that starts with \<open>Homework: \<close>; the
  lines of the other steps start with other labels.
\<close>

definition is_homework_line :: "string \<Rightarrow> bool" where
  "is_homework_line p = (take 10 p = ''Homework: '')"

definition has_homework_line :: "string list \<Rightarrow> bool" where
  "has_homework_line parts = list_ex is_homework_line parts"

text \<open>Sequence order at least 3.\<close>

definition late_session :: "activity_row \<Rightarrow> bool" where
  "late_session a = (case sequence_order a of None \<Rightarrow> False | Some n \<Rightarrow> n \<ge> 3)"

text \<open>
  Some day of the database with this (module, day number) has a homework assignment
  whose title is neither NULL nor empty.
\<close>

definition key_has_titled_homework :: "database \<Rightarrow> day_key \<Rightarrow> bool" where
  "key_has_titled_homework db k =
     list_ex (\<lambda>d. d_module d \<noteq> None \<and> (d_module d, d_day_number d) = k \<and>
                  list_ex (\<lambda>ha. ha_day_id ha = Some (d_id d) \<and> truthy (ha_title ha)) (homework_assignments db))
       (days db)"

text \<open>
  The condition in the words of the specification: some day with this key has a
  homework assignment with a non-null title.
\<close>

definition spec_key_has_homework :: "database \<Rightarrow> day_key \<Rightarrow> bool" where
  "spec_key_has_homework db k =
     list_ex (\<lambda>d. d_module d \<noteq> None \<and> (d_module d, d_day_number d) = k \<and>
                  list_ex (\<lambda>ha. ha_day_id ha = Some (d_id d) \<and> ha_title ha \<noteq> None) (homework_assignments db))
       (days db)"

text \<open>The sort key of a chunk: the three columns of the ORDER BY, as the chunk has them.\<close>

definition chunk_order_key :: "chunk \<Rightarrow> string option \<times> int option \<times> int option" where
  "chunk_order_key c = (c_module c, c_day c, c_session_number c)"

text \<open>The activity has a day (by its foreign key) whose module is not NULL.\<close>

definition has_module_day :: "database \<Rightarrow> activity \<Rightarrow> bool" where
  "has_module_day db a = list_ex (\<lambda>d. a_day_id a = Some (d_id d) \<and> d_module d \<noteq> None) (days db)"

text \<open>The identifier of the chunk of an activity.\<close>

definition activity_chunk_id :: "activity \<Rightarrow> string" where
  "activity_chunk_id a = ''curr-'' @ py_str_int (a_id a)"

text \<open>The row of the first query for an activity, when the primary keys are unique.\<close>

definition joined_row :: "database \<Rightarrow> activity \<Rightarrow> activity_row" where
  "joined_row db a =
     activities_select ((a, find (\<lambda>d. a_day_id a = Some (d_id d)) (days db)),
                        find (\<lambda>lb. a_block_id a = Some (lb_id lb)) (learning_blocks db))"

text \<open>Some homework assignment refers to the day.\<close>

definition has_assignment :: "database \<Rightarrow> day \<Rightarrow> bool" where
  "has_assignment db d = list_ex (\<lambda>ha. ha_day_id ha = Some (d_id d)) (homework_assignments db)"

text \<open>The row the outer joins produce for a day without assignments.\<close>

definition no_homework_row :: "day \<Rightarrow> homework_row" where
  "no_homework_row d =
     \<lparr> h_day_id = d_id d, h_module = d_module d, h_day_number = d_day_number d,
       h_homework_title = None, h_homework_tasks = None \<rparr>"

text \<open>
  The assignments of a day that carry a given title, and the non-NULL tasks of an
  assignment, both in table order.
\<close>

definition assignments_titled :: "database \<Rightarrow> day \<Rightarrow> string option \<Rightarrow> homework_assignment list" where
  "assignments_titled db d t =
     filter (\<lambda>ha. ha_day_id ha = Some (d_id d) \<and> ha_title ha = t) (homework_assignments db)"

definition tasks_of :: "database \<Rightarrow> homework_assignment \<Rightarrow> string list" where
  "tasks_of db ha =
     List.map_filter ht_task (filter (\<lambda>ht. ht_assignment_id ht = Some (ha_id ha)) (homework_tasks db))"

text \<open>
  The Homework text in the words of the specification: every assignment of the day
  that has a title is rendered as \<open>title: tasks\<close>, its tasks joined by \<open>'' | ''\<close>, and
  the assignments are joined by \<open>''; ''\<close>.
\<close>

definition spec_hw_text :: "database \<Rightarrow> day \<Rightarrow> string" where
  "spec_hw_text db d =
     join ''; ''
       (map (\<lambda>ha. fmt_str (ha_title ha) @ '': '' @ join '' | '' (tasks_of db ha))
          (filter (\<lambda>ha. ha_day_id ha = Some (d_id d) \<and> truthy (ha_title ha)) (homework_assignments db)))"

subsection \<open>Example engines and databases\<close>

text \<open>
  Two engines: one scans the join in its own order, the other from its last row to its
  first.
\<close>

definition table_order :: engine where
  "table_order i = 0"

definition reverse_order :: engine where
  "reverse_order i = - int i"

text \<open>
  The example of the specification (activity 42 of day 3 of Solar, with its Reading
  homework), with a second assignment on the same day, a day without homework, a day
  without module and an activity without day.
\<close>

definition db_example :: database where
  "db_example =
     \<lparr> days = [\<lparr>d_id = 7, d_module = Some ''Solar'', d_day_number = Some 3, d_theme = Some ''Photovoltaics''\<rparr>,
               \<lparr>d_id = 8, d_module = Some ''Architecture'', d_day_number = Some 1, d_theme = None\<rparr>,
               \<lparr>d_id = 9, d_module = None, d_day_number = Some 1, d_theme = None\<rparr>],
       learning_blocks = [\<lparr>lb_id = 1, lb_focus = Some ''Wiring''\<rparr>],
       activities =
         [\<lparr>a_id = 42, a_day_id = Some 7, a_block_id = None, a_name = Some ''Panel Wiring Lab'',
           a_sequence_order = Some 4, a_purpose = Some ''Hands-on wiring practice'',
           a_duration = Some ''45 min'', a_facilitator_script = Some ''Walk through safety steps'',
           a_transition_script = None\<rparr>,
          \<lparr>a_id = 43, a_day_id = Some 8, a_block_id = Some 1, a_name = Some ''Intro'',
           a_sequence_order = Some 1, a_purpose = None, a_duration = None,
           a_facilitator_script = None, a_transition_script = None\<rparr>,
          \<lparr>a_id = 44, a_day_id = Some 9, a_block_id = None, a_name = Some ''Orphan'',
           a_sequence_order = Some 1, a_purpose = None, a_duration = None,
           a_facilitator_script = None, a_transition_script = None\<rparr>,
          \<lparr>a_id = 45, a_day_id = None, a_block_id = None, a_name = Some ''No day'',
           a_sequence_order = Some 2, a_purpose = None, a_duration = None,
           a_facilitator_script = None, a_transition_script = None\<rparr>],
       homework_assignments =
         [\<lparr>ha_id = 1, ha_day_id = Some 7, ha_title = Some ''Reading''\<rparr>,
          \<lparr>ha_id = 2, ha_day_id = Some 7, ha_title = Some ''Practice''\<rparr>],
       homework_tasks =
         [\<lparr>ht_assignment_id = Some 1, ht_task = Some ''Read ch. 4''\<rparr>,
          \<lparr>ht_assignment_id = Some 1, ht_task = Some ''Quiz prep''\<rparr>,
          \<lparr>ht_assignment_id = Some 2, ht_task = Some ''Wire a panel''\<rparr>] \<rparr>"

text \<open>Day 3 of Solar, the day without homework, and the Reading assignment.\<close>

definition day_7 :: day where
  "day_7 = \<lparr>d_id = 7, d_module = Some ''Solar'', d_day_number = Some 3, d_theme = Some ''Photovoltaics''\<rparr>"

definition day_8 :: day where
  "day_8 = \<lparr>d_id = 8, d_module = Some ''Architecture'', d_day_number = Some 1, d_theme = None\<rparr>"

definition ha_reading :: homework_assignment where
  "ha_reading = \<lparr>ha_id = 1, ha_day_id = Some 7, ha_title = Some ''Reading''\<rparr>"

text \<open>The homework lookup of the example.\<close>

definition hbd_example :: "day_key \<rightharpoonup> hw_item list" where
  "hbd_example = homework_by_day (homework_query table_order db_example)"

text \<open>The row of the first query for activity 42, the lines of its chunk and the chunk.\<close>

definition row_42 :: activity_row where
  "row_42 = \<lparr> activity_id = 42, module = Some ''Solar'', day_number = Some 3,
       day_theme = Some ''Photovoltaics'', activity_name = Some ''Panel Wiring Lab'',
       sequence_order = Some 4, purpose = Some ''Hands-on wiring practice'',
       duration = Some ''45 min'', facilitator_script = Some ''Walk through safety steps'',
       transition_script = None, learning_block_focus = None \<rparr>"

definition parts_42 :: "string list" where
  "parts_42 = [''Module: Solar'', ''Day 3: Photovoltaics'', ''Session 4: Panel Wiring Lab'',
      ''Purpose: Hands-on wiring practice'', ''Duration: 45 min'',
      ''Facilitator Script: Walk through safety steps'',
      ''Homework: Practice: Wire a panel; Reading: Read ch. 4 | Quiz prep'']"

definition chunk_42 :: chunk where
  "chunk_42 = \<lparr> c_id = ''curr-42'', c_content_type = ''curriculum_activity'',
       c_module = Some ''Solar'', c_day = Some 3, c_day_theme = Some ''Photovoltaics'',
       c_session_number = Some 4, c_activity_name = Some ''Panel Wiring Lab'',
       c_purpose = Some ''Hands-on wiring practice'', c_duration = Some ''45 min'',
       c_searchable_content = join newline parts_42,
       c_facilitator_script = Some ''Walk through safety steps'', c_transition_script = None \<rparr>"

text \<open>The same for activity 43, whose day has no theme and no homework.\<close>

definition row_43 :: activity_row where
  "row_43 = \<lparr> activity_id = 43, module = Some ''Architecture'', day_number = Some 1,
       day_theme = None, activity_name = Some ''Intro'', sequence_order = Some 1,
       purpose = None, duration = None, facilitator_script = None,
       transition_script = None, learning_block_focus = Some ''Wiring'' \<rparr>"

definition parts_43 :: "string list" where
  "parts_43 = [''Module: Architecture'', ''Day 1: None'', ''Session 1: Intro'',
      ''Learning Block Focus: Wiring'']"

definition chunk_43 :: chunk where
  "chunk_43 = \<lparr> c_id = ''curr-43'', c_content_type = ''curriculum_activity'',
       c_module = Some ''Architecture'', c_day = Some 1, c_day_theme = None,
       c_session_number = Some 1, c_activity_name = Some ''Intro'',
       c_purpose = None, c_duration = None,
       c_searchable_content = join newline parts_43,
       c_facilitator_script = None, c_transition_script = None \<rparr>"

text \<open>The world before the first run (no output file, nothing printed) and after one run.\<close>

definition world_start :: world where
  "world_start = \<lparr> w_file = None, w_stdout = [] \<rparr>"

definition world_once :: world where
  "world_once =
     \<lparr> w_file = Some (json_dump [chunk_43, chunk_42]),
       w_stdout = summary ''data/curriculum_content.json'' [chunk_43, chunk_42] \<rparr>"

text \<open>One late activity on a day whose only homework assignment has the empty title.\<close>

definition db_empty_title :: database where
  "db_empty_title =
     \<lparr> days = [\<lparr>d_id = 1, d_module = Some ''Solar'', d_day_number = Some 1, d_theme = Some ''Basics''\<rparr>],
       learning_blocks = [],
       activities =
         [\<lparr>a_id = 5, a_day_id = Some 1, a_block_id = None, a_name = Some ''Wrap-up'',
           a_sequence_order = Some 3, a_purpose = None, a_duration = None,
           a_facilitator_script = None, a_transition_script = None\<rparr>],
       homework_assignments = [\<lparr>ha_id = 1, ha_day_id = Some 1, ha_title = Some []\<rparr>],
       homework_tasks = [\<lparr>ht_assignment_id = Some 1, ht_task = Some ''Review notes''\<rparr>] \<rparr>"

definition row_5 :: activity_row where
  "row_5 = \<lparr> activity_id = 5, module = Some ''Solar'', day_number = Some 1,
       day_theme = Some ''Basics'', activity_name = Some ''Wrap-up'',
       sequence_order = Some 3, purpose = None, duration = None, facilitator_script = None,
       transition_script = None, learning_block_focus = None \<rparr>"

definition parts_5 :: "string list" where
  "parts_5 = [''Module: Solar'', ''Day 1: Basics'', ''Session 3: Wrap-up'']"

definition day_1 :: day where
  "day_1 = \<lparr>d_id = 1, d_module = Some ''Solar'', d_day_number = Some 1, d_theme = Some ''Basics''\<rparr>"

text \<open>A day with two assignments of the same title, one task each, and a late activity.\<close>

definition db_same_title :: database where
  "db_same_title =
     \<lparr> days = [day_1],
       learning_blocks = [],
       activities =
         [\<lparr>a_id = 6, a_day_id = Some 1, a_block_id = None, a_name = Some ''Wrap-up'',
           a_sequence_order = Some 3, a_purpose = None, a_duration = None,
           a_facilitator_script = None, a_transition_script = None\<rparr>],
       homework_assignments =
         [\<lparr>ha_id = 1, ha_day_id = Some 1, ha_title = Some ''Reading''\<rparr>,
          \<lparr>ha_id = 2, ha_day_id = Some 1, ha_title = Some ''Reading''\<rparr>],
       homework_tasks =
         [\<lparr>ht_assignment_id = Some 1, ht_task = Some ''Read ch. 4''\<rparr>,
          \<lparr>ht_assignment_id = Some 2, ht_task = Some ''Quiz prep''\<rparr>] \<rparr>"

definition row_6 :: activity_row where
  "row_6 = \<lparr> activity_id = 6, module = Some ''Solar'', day_number = Some 1,
       day_theme = Some ''Basics'', activity_name = Some ''Wrap-up'',
       sequence_order = Some 3, purpose = None, duration = None, facilitator_script = None,
       transition_script = None, learning_block_focus = None \<rparr>"

text \<open>
  Two days with the same identifier, module and day number; the only activity is late
  and its day has one assignment with two tasks.
\<close>

definition db_duplicate_day :: database where
  "db_duplicate_day =
     \<lparr> days = [day_1,
               \<lparr>d_id = 1, d_module = Some ''Solar'', d_day_number = Some 1, d_theme = Some ''Basics again''\<rparr>],
       learning_blocks = [],
       activities =
         [\<lparr>a_id = 13, a_day_id = Some 1, a_block_id = None, a_name = Some ''Wrap-up'',
           a_sequence_order = Some 3, a_purpose = None, a_duration = None,
           a_facilitator_script = None, a_transition_script = None\<rparr>],
       homework_assignments = [\<lparr>ha_id = 1, ha_day_id = Some 1, ha_title = Some ''Reading''\<rparr>],
       homework_tasks =
         [\<lparr>ht_assignment_id = Some 1, ht_task = Some ''Read ch. 4''\<rparr>,
          \<lparr>ht_assignment_id = Some 1, ht_task = Some ''Quiz prep''\<rparr>] \<rparr>"

definition row_13 :: activity_row where
  "row_13 = \<lparr> activity_id = 13, module = Some ''Solar'', day_number = Some 1,
       day_theme = Some ''Basics'', activity_name = Some ''Wrap-up'',
       sequence_order = Some 3, purpose = None, duration = None, facilitator_script = None,
       transition_script = None, learning_block_focus = None \<rparr>"

text \<open>Two learning blocks with the identifier the only activity refers to.\<close>

definition db_duplicate_block :: database where
  "db_duplicate_block =
     \<lparr> days = [day_1],
       learning_blocks = [\<lparr>lb_id = 1, lb_focus = Some ''Wiring''\<rparr>, \<lparr>lb_id = 1, lb_focus = Some ''Safety''\<rparr>],
       activities =
         [\<lparr>a_id = 12, a_day_id = Some 1, a_block_id = Some 1, a_name = Some ''Opening'',
           a_sequence_order = Some 1, a_purpose = None, a_duration = None,
           a_facilitator_script = None, a_transition_script = None\<rparr>],
       homework_assignments = [],
       homework_tasks = [] \<rparr>"

text \<open>Two activities of a day with a module; the second has no sequence order.\<close>

definition db_null_sequence :: database where
  "db_null_sequence =
     \<lparr> days = [day_1],
       learning_blocks = [],
       activities =
         [\<lparr>a_id = 10, a_day_id = Some 1, a_block_id = None, a_name = Some ''Opening'',
           a_sequence_order = Some 1, a_purpose = None, a_duration = None,
           a_facilitator_script = None, a_transition_script = None\<rparr>,
          \<lparr>a_id = 11, a_day_id = Some 1, a_block_id = None, a_name = Some ''Unplaced'',
           a_sequence_order = None, a_purpose = None, a_duration = None,
           a_facilitator_script = None, a_transition_script = None\<rparr>],
       homework_assignments = [],
       homework_tasks = [] \<rparr>"

text \<open>A database without activities; its days and homework are still there.\<close>

definition db_no_activities :: database where
  "db_no_activities =
     \<lparr> days = [\<lparr>d_id = 1, d_module = Some ''Solar'', d_day_number = Some 1, d_theme = None\<rparr>],
       learning_blocks = [],
       activities = [],
       homework_assignments = [\<lparr>ha_id = 1, ha_day_id = Some 1, ha_title = Some ''Reading''\<rparr>],
       homework_tasks = [] \<rparr>"

section \<open>Lemmas\<close>

subsection \<open>Strings\<close>

lemma join_snoc: "join sep (xs @ [y]) = (if xs = [] then y else join sep xs @ sep @ y)"
  by (induction sep xs rule: join.induct) auto

lemma join_three:
  "join sep ([x, y, z] @ rest) = x @ sep @ y @ sep @ z @ (if rest = [] then [] else sep @ join sep rest)"
  by (cases rest) simp_all

lemma py_str_int_0: "py_str_int 0 = ''0''"
  by code_simp

subsection \<open>Left joins\<close>

lemma left_join_Nil: "left_join [] on ys = []"
  by (simp add: left_join_def)

lemma left_join_Cons:
  "left_join (x # xs) on ys =
     (if filter (on x) ys = [] then [(x, None)] else map (\<lambda>y. (x, Some y)) (filter (on x) ys)) @
     left_join xs on ys"
  by (simp add: left_join_def Let_def)

lemma in_left_join:
  "(x, yo) \<in> set (left_join xs on ys) \<longleftrightarrow>
     x \<in> set xs \<and> (case yo of None \<Rightarrow> \<forall>y\<in>set ys. \<not> on x y | Some y \<Rightarrow> y \<in> set ys \<and> on x y)"
  by (auto simp: left_join_def Let_def filter_empty_conv split: if_splits option.splits)

lemma set_left_join:
  "set (left_join xs on ys) =
     {(x, Some y) | x y. x \<in> set xs \<and> y \<in> set ys \<and> on x y} \<union>
     {(x, None) | x. x \<in> set xs \<and> (\<forall>y\<in>set ys. \<not> on x y)}"
  by (auto simp: left_join_def Let_def filter_empty_conv split: if_splits)

lemma fst_set_left_join: "fst ` set (left_join xs on ys) = set xs"
proof
  show "fst ` set (left_join xs on ys) \<subseteq> set xs"
    by (auto simp: set_left_join)
  show "set xs \<subseteq> fst ` set (left_join xs on ys)"
  proof
    fix x assume x: "x \<in> set xs"
    show "x \<in> fst ` set (left_join xs on ys)"
    proof (cases "\<exists>y\<in>set ys. on x y")
      case True
      then obtain y where "y \<in> set ys" "on x y" by blast
      with x have "(x, Some y) \<in> set (left_join xs on ys)"
        by (simp add: set_left_join)
      then show ?thesis by (rule rev_image_eqI) simp
    next
      case False
      with x have "(x, None) \<in> set (left_join xs on ys)"
        by (simp add: set_left_join)
      then show ?thesis by (rule rev_image_eqI) simp
    qed
  qed
qed

lemma bex_left_join:
  "(\<exists>p\<in>set (left_join xs on ys). P (fst p) (snd p)) \<longleftrightarrow>
     (\<exists>x\<in>set xs. (\<exists>y\<in>set ys. on x y \<and> P x (Some y)) \<or> ((\<forall>y\<in>set ys. \<not> on x y) \<and> P x None))"
proof -
  have "(\<exists>p\<in>set (left_join xs on ys). P (fst p) (snd p)) \<longleftrightarrow>
        (\<exists>x yo. (x, yo) \<in> set (left_join xs on ys) \<and> P x yo)"
    by (simp add: Bex_def)
  also have "\<dots> \<longleftrightarrow> (\<exists>x\<in>set xs. (\<exists>y\<in>set ys. on x y \<and> P x (Some y)) \<or> ((\<forall>y\<in>set ys. \<not> on x y) \<and> P x None))"
    by (simp only: in_left_join split_option_ex Bex_def option.case) blast
  finally show ?thesis .
qed

lemma filter_left_join_fst:
  "filter (\<lambda>j. Q (fst j)) (left_join xs on ys) = left_join (filter Q xs) on ys"
  by (induction xs) (simp_all add: left_join_Cons left_join_Nil filter_map comp_def)

lemma find_filter: "find P ys = (case filter P ys of [] \<Rightarrow> None | y # _ \<Rightarrow> Some y)"
  by (induction ys) auto

lemma left_join_unique:
  assumes "\<And>x. x \<in> set xs \<Longrightarrow> length (filter (on x) ys) \<le> 1"
  shows "left_join xs on ys = map (\<lambda>x. (x, find (on x) ys)) xs"
  using assms
proof (induction xs)
  case Nil
  show ?case by (simp add: left_join_def)
next
  case (Cons x xs)
  have tail: "left_join xs on ys = map (\<lambda>x. (x, find (on x) ys)) xs"
    using Cons by simp
  have "length (filter (on x) ys) \<le> 1"
    using Cons.prems by simp
  then have "filter (on x) ys = [] \<or> (\<exists>y. filter (on x) ys = [y])"
    by (cases "filter (on x) ys") (auto simp: length_Suc_conv)
  then have head: "(let ms = filter (on x) ys in if ms = [] then [(x, None)] else map (\<lambda>y. (x, Some y)) ms)
                 = [(x, find (on x) ys)]"
    by (auto simp: find_filter)
  show ?case
    using tail head by (simp add: left_join_def)
qed

lemma distinct_filter_key:
  "distinct (map f ys) \<Longrightarrow> length (filter (\<lambda>y. k = f y) ys) \<le> 1"
proof (induction ys)
  case Nil
  show ?case by simp
next
  case (Cons y ys)
  show ?case
  proof (cases "k = f y")
    case True
    with Cons.prems have "filter (\<lambda>y. k = f y) ys = []"
      by (auto simp: filter_empty_conv)
    with True show ?thesis by simp
  next
    case False
    with Cons show ?thesis by simp
  qed
qed

lemma distinct_filter_Some:
  "distinct (map f ys) \<Longrightarrow> length (filter (\<lambda>y. k = Some (f y)) ys) \<le> 1"
  using distinct_filter_key [of "\<lambda>y. Some (f y)" ys k]
  by (simp add: distinct_map comp_def inj_on_def)

lemma filter_eq_singleton:
  "distinct xs \<Longrightarrow> x \<in> set xs \<Longrightarrow> filter (\<lambda>y. y = x) xs = [x]"
  by (induction xs) (auto simp: filter_empty_conv)

lemma map_filter_append: "List.map_filter f (xs @ ys) = List.map_filter f xs @ List.map_filter f ys"
  by (simp add: List.map_filter_def)

lemma map_filter_map: "List.map_filter f (map g xs) = List.map_filter (\<lambda>x. f (g x)) xs"
  by (simp add: List.map_filter_def filter_map comp_def)

lemma map_filter_all_None: "\<forall>v\<in>set vs. v = None \<Longrightarrow> List.map_filter (\<lambda>v. v) vs = []"
  by (induction vs) (simp_all add: List.map_filter_simps)

lemma tasks_left_join:
  "List.map_filter (\<lambda>v. v) (map (\<lambda>j. Option.bind (snd j) f) (left_join xs on ys)) =
     concat (map (\<lambda>x. List.map_filter f (filter (on x) ys)) xs)"
  by (induction xs)
     (simp_all add: left_join_Cons left_join_Nil map_filter_append map_filter_map List.map_filter_simps)

subsection \<open>The scan of the engine\<close>

lemma mset_scan_order: "mset (scan_order eng js) = mset js"
proof -
  have "mset (scan_order eng js) = image_mset snd (mset (sort_key (\<lambda>p. eng (fst p)) (enumerate 0 js)))"
    by (simp add: scan_order_def)
  also have "\<dots> = image_mset snd (mset (enumerate 0 js))"
    by simp
  also have "\<dots> = mset (map snd (enumerate 0 js))"
    by (simp only: mset_map)
  also have "\<dots> = mset js"
    by (simp only: map_snd_enumerate)
  finally show ?thesis .
qed

lemma set_scan_order: "set (scan_order eng js) = set js"
  using mset_scan_order [of eng js] by (rule mset_eq_setD)

lemma scan_order_table_order: "scan_order table_order js = js"
  by (simp add: scan_order_def table_order_def [abs_def] sort_key_const map_snd_enumerate)

text \<open>Every order of the rows is the scan of some engine.\<close>

lemma position_distinct:
  "distinct is \<Longrightarrow> map (\<lambda>i. length (takeWhile (\<lambda>j. j \<noteq> i) is)) is = [0..<length is]"
proof (induction "is" rule: rev_induct)
  case Nil
  show ?case by simp
next
  case (snoc a "is")
  then have d: "distinct is" and a: "a \<notin> set is"
    by simp_all
  have old: "length (takeWhile (\<lambda>j. j \<noteq> i) (is @ [a])) = length (takeWhile (\<lambda>j. j \<noteq> i) is)"
    if "i \<in> set is" for i
    using that by simp
  have new: "takeWhile (\<lambda>j. j \<noteq> a) (is @ [a]) = is"
    using a by (simp add: takeWhile_append)
  have "map (\<lambda>i. length (takeWhile (\<lambda>j. j \<noteq> i) (is @ [a]))) is =
        map (\<lambda>i. length (takeWhile (\<lambda>j. j \<noteq> i) is)) is"
    by (rule map_cong) (simp_all add: old)
  then show ?case
    using snoc.IH [OF d] by (simp only: map_append list.map new upt_Suc_append length_append_singleton)
qed

lemma scan_order_any_order:
  assumes "mset ys = mset xs"
  shows "\<exists>eng. scan_order eng xs = ys"
proof -
  let ?E = "enumerate 0 xs"
  have "list_all2 (\<lambda>y e. y = snd e) (map snd ?E) ?E"
    by (simp only: list_all2_map1) (simp add: list_all2_same)
  moreover have "mset ys = mset (map snd ?E)"
    using assms by (simp only: map_snd_enumerate)
  ultimately obtain zs where rel: "list_all2 (\<lambda>y e. y = snd e) ys zs" and perm: "mset zs = mset ?E"
    using list_all2_reorder_left_invariance by blast
  from rel have ys: "map snd zs = ys"
    by (induction rule: list_all2_induct) simp_all
  have "mset (map fst zs) = mset (map fst ?E)"
    using perm by (simp only: mset_map)
  then have "distinct (map fst zs) \<longleftrightarrow> distinct (map fst ?E)"
    by (rule mset_eq_imp_distinct_iff)
  then have dist: "distinct (map fst zs)"
    by simp
  let ?eng = "\<lambda>i. int (length (takeWhile (\<lambda>j. j \<noteq> i) (map fst zs)))"
  let ?f = "\<lambda>p :: nat \<times> 'a. ?eng (fst p)"
  have "map (\<lambda>i. length (takeWhile (\<lambda>j. j \<noteq> i) (map fst zs))) (map fst zs) = [0..<length (map fst zs)]"
    using dist by (rule position_distinct)
  then have pos: "map (\<lambda>i. length (takeWhile (\<lambda>j. j \<noteq> i) (map fst zs))) (map fst zs) = [0..<length zs]"
    by simp
  have "map ?f zs = map int (map (\<lambda>i. length (takeWhile (\<lambda>j. j \<noteq> i) (map fst zs))) (map fst zs))"
    by (simp add: comp_def)
  then have ranks: "map ?f zs = map int [0..<length zs]"
    by (simp only: pos)
  have sorted: "sorted (map ?f zs)"
    unfolding ranks by (simp add: sorted_wrt_map)
  have "distinct (map ?f zs)"
    unfolding ranks by (simp add: distinct_map inj_on_def)
  then have dz: "distinct zs" and inj: "inj_on ?f (set zs)"
    by (simp_all add: distinct_map)
  have sets: "set ?E = set zs"
    using perm by (metis mset_eq_setD)
  have single: "filter (\<lambda>x. ?f k = ?f x) us = [k]" if "k \<in> set us" "distinct us" "set us = set zs" for us k
  proof -
    have "filter (\<lambda>x. ?f k = ?f x) us = filter (\<lambda>x. x = k) us"
      using that inj by (intro filter_cong) (auto simp: inj_on_def)
    then show ?thesis
      using that by (simp add: filter_eq_singleton)
  qed
  have "sort_key ?f ?E = zs"
  proof (rule properties_for_sort_key)
    show "mset zs = mset ?E" by (rule perm)
    show "sorted (map ?f zs)" by (rule sorted)
    fix k assume k: "k \<in> set zs"
    have "filter (\<lambda>x. ?f k = ?f x) zs = [k]"
      using k dz by (intro single) simp_all
    moreover have "filter (\<lambda>x. ?f k = ?f x) ?E = [k]"
      using k sets by (intro single) simp_all
    ultimately show "filter (\<lambda>x. ?f k = ?f x) zs = filter (\<lambda>x. ?f k = ?f x) ?E"
      by simp
  qed
  then have "scan_order ?eng xs = ys"
    by (simp add: scan_order_def ys)
  then show ?thesis
    by blast
qed

lemma mset_map_filter: "mset xs = mset ys \<Longrightarrow> mset (List.map_filter f xs) = mset (List.map_filter f ys)"
proof -
  assume eq: "mset xs = mset ys"
  have "mset (List.map_filter f zs) = image_mset (\<lambda>x. the (f x)) (filter_mset (\<lambda>x. f x \<noteq> None) (mset zs))" for zs
    by (simp add: List.map_filter_def comp_def)
  then show ?thesis
    by (simp only: eq)
qed

lemma group_tasks_scan:
  "mset (List.map_filter (\<lambda>v. v) (map g (filter P (scan_order eng js)))) =
   mset (List.map_filter (\<lambda>v. v) (map g (filter P js)))"
proof -
  have "mset (map g (filter P (scan_order eng js))) = mset (map g (filter P js))"
    by (simp add: mset_scan_order)
  then show ?thesis
    by (rule mset_map_filter)
qed

subsection \<open>The first query under unique keys\<close>

lemma activities_from_unique:
  assumes days: "distinct (map d_id (days db))" and blocks: "distinct (map lb_id (learning_blocks db))"
  shows "activities_from db =
           map (\<lambda>a. ((a, find (\<lambda>d. a_day_id a = Some (d_id d)) (days db)),
                      find (\<lambda>lb. a_block_id a = Some (lb_id lb)) (learning_blocks db)))
             (activities db)"
proof -
  have inner: "left_join (activities db) (\<lambda>a d. a_day_id a = Some (d_id d)) (days db) =
                 map (\<lambda>a. (a, find (\<lambda>d. a_day_id a = Some (d_id d)) (days db))) (activities db)"
    by (rule left_join_unique) (rule distinct_filter_Some [OF days])
  have outer: "left_join (map (\<lambda>a. (a, find (\<lambda>d. a_day_id a = Some (d_id d)) (days db))) (activities db))
                 (\<lambda>ad lb. a_block_id (fst ad) = Some (lb_id lb)) (learning_blocks db) =
               map (\<lambda>ad. (ad, find (\<lambda>lb. a_block_id (fst ad) = Some (lb_id lb)) (learning_blocks db)))
                 (map (\<lambda>a. (a, find (\<lambda>d. a_day_id a = Some (d_id d)) (days db))) (activities db))"
    by (rule left_join_unique) (rule distinct_filter_Some [OF blocks])
  show ?thesis
    unfolding activities_from_def inner outer by (simp add: comp_def)
qed

lemma find_day_has_module:
  assumes days: "distinct (map d_id (days db))"
  shows "(case find (\<lambda>d. a_day_id a = Some (d_id d)) (days db) of None \<Rightarrow> False | Some d \<Rightarrow> d_module d \<noteq> None)
           \<longleftrightarrow> has_module_day db a"
proof (cases "find (\<lambda>d. a_day_id a = Some (d_id d)) (days db)")
  case None
  then have "\<not> (\<exists>d\<in>set (days db). a_day_id a = Some (d_id d))"
    by (simp add: find_None_iff)
  then have "\<not> has_module_day db a"
    unfolding has_module_day_def list_ex_iff by blast
  then show ?thesis
    by (simp add: None)
next
  case (Some d)
  then have d: "d \<in> set (days db)" "a_day_id a = Some (d_id d)"
    by (auto simp: find_Some_iff)
  have inj: "inj_on d_id (set (days db))"
    using days by (simp add: distinct_map)
  have same: "d' = d" if "d' \<in> set (days db)" "a_day_id a = Some (d_id d')" for d'
  proof -
    from that(2) d(2) have eq: "d_id d' = d_id d" by simp
    from inj eq that(1) d(1) show ?thesis by (rule inj_onD)
  qed
  have "has_module_day db a \<longleftrightarrow> d_module d \<noteq> None"
  proof
    assume "has_module_day db a"
    then obtain d' where "d' \<in> set (days db)" "a_day_id a = Some (d_id d')" "d_module d' \<noteq> None"
      unfolding has_module_day_def list_ex_iff by blast
    with same show "d_module d \<noteq> None" by blast
  next
    assume "d_module d \<noteq> None"
    with d show "has_module_day db a"
      unfolding has_module_day_def list_ex_iff by blast
  qed
  then show ?thesis
    by (simp add: Some)
qed

lemma joined_row_columns:
  "activity_id (joined_row db a) = a_id a" "sequence_order (joined_row db a) = a_sequence_order a"
  by (simp_all add: joined_row_def activities_select_def Let_def)

lemma activities_rows_unique:
  assumes days: "distinct (map d_id (days db))" and blocks: "distinct (map lb_id (learning_blocks db))"
  shows "activities_query db = sort_key order_key (map (joined_row db) (filter (has_module_day db) (activities db)))"
proof -
  let ?g = "\<lambda>a. ((a, find (\<lambda>d. a_day_id a = Some (d_id d)) (days db)),
                   find (\<lambda>lb. a_block_id a = Some (lb_id lb)) (learning_blocks db))"
  have "filter activities_where (map ?g (activities db)) = map ?g (filter (has_module_day db) (activities db))"
    by (simp add: filter_map comp_def activities_where_def find_day_has_module [OF days])
  then show ?thesis
    by (simp add: activities_query_def activities_from_unique [OF days blocks] comp_def joined_row_def [abs_def])
qed

subsection \<open>The rows of the homework query\<close>

lemma set_homework_query:
  "set (homework_query eng db) =
     (\<lambda>j. homework_select (scan_order eng (filter homework_where (homework_from db))) (group_key_of j)) `
       {j \<in> set (homework_from db). homework_where j}"
  by (auto simp: homework_query_def Let_def)

lemma homework_query_columns:
  "(\<lambda>r. (h_module r, h_day_number r, h_homework_title r)) ` set (homework_query eng db) =
     (\<lambda>p. (d_module (fst p), d_day_number (fst p), Option.bind (snd p) ha_title)) `
       {p \<in> set (left_join (days db) (\<lambda>d ha. ha_day_id ha = Some (d_id d)) (homework_assignments db)).
          d_module (fst p) \<noteq> None}"
  (is "?f ` _ = ?g ` {p \<in> set ?dh. _}")
proof -
  have fst_from: "fst ` set (homework_from db) = set ?dh"
    by (simp only: homework_from_def fst_set_left_join)
  have "?f ` set (homework_query eng db) = (\<lambda>j. ?g (fst j)) ` {j \<in> set (homework_from db). d_module (fst (fst j)) \<noteq> None}"
    by (simp add: set_homework_query image_image homework_select_def group_key_of_def homework_where_def Let_def)
  also have "\<dots> = ?g ` (fst ` {j \<in> set (homework_from db). d_module (fst (fst j)) \<noteq> None})"
    by (simp only: image_image)
  also have "fst ` {j \<in> set (homework_from db). d_module (fst (fst j)) \<noteq> None} =
             {p \<in> fst ` set (homework_from db). d_module (fst p) \<noteq> None}"
    by (auto simp: image_iff)
  finally show ?thesis by (simp only: fst_from)
qed

lemma homework_rows_ex:
  "(\<exists>r\<in>set (homework_query eng db). P (h_module r) (h_day_number r) (h_homework_title r)) \<longleftrightarrow>
     (\<exists>p\<in>set (left_join (days db) (\<lambda>d ha. ha_day_id ha = Some (d_id d)) (homework_assignments db)).
        d_module (fst p) \<noteq> None \<and> P (d_module (fst p)) (d_day_number (fst p)) (Option.bind (snd p) ha_title))"
  (is "?L \<longleftrightarrow> (\<exists>p\<in>set ?dh. ?R p \<and> ?Q p)")
proof -
  let ?f = "\<lambda>r. (h_module r, h_day_number r, h_homework_title r)"
  let ?g = "\<lambda>p. (d_module (fst p), d_day_number (fst p), Option.bind (snd p) ha_title)"
  have "?L \<longleftrightarrow> (\<exists>c \<in> ?f ` set (homework_query eng db). P (fst c) (fst (snd c)) (snd (snd c)))"
    by simp
  also have "\<dots> \<longleftrightarrow> (\<exists>c \<in> ?g ` {p \<in> set ?dh. ?R p}. P (fst c) (fst (snd c)) (snd (snd c)))"
    by (simp only: homework_query_columns)
  also have "\<dots> \<longleftrightarrow> (\<exists>p \<in> {p \<in> set ?dh. ?R p}. ?Q p)"
    by (simp only: bex_simps(7) fst_conv snd_conv)
  also have "\<dots> \<longleftrightarrow> (\<exists>p\<in>set ?dh. ?R p \<and> ?Q p)"
    by blast
  finally show ?thesis .
qed

lemma titled_row_iff:
  "(\<exists>r\<in>set (homework_query eng db). row_key r = k \<and> truthy (h_homework_title r)) \<longleftrightarrow>
     key_has_titled_homework db k"
proof -
  let ?P = "\<lambda>d (hao :: homework_assignment option).
              d_module d \<noteq> None \<and> (d_module d, d_day_number d) = k \<and> truthy (Option.bind hao ha_title)"
  have "(\<exists>r\<in>set (homework_query eng db). row_key r = k \<and> truthy (h_homework_title r)) \<longleftrightarrow>
        (\<exists>p\<in>set (left_join (days db) (\<lambda>d ha. ha_day_id ha = Some (d_id d)) (homework_assignments db)). ?P (fst p) (snd p))"
    using homework_rows_ex[of eng db "\<lambda>m n t. (m, n) = k \<and> truthy t"]
    by (simp only: row_key_def)
  also have "\<dots> \<longleftrightarrow> (\<exists>d\<in>set (days db).
           (\<exists>ha\<in>set (homework_assignments db). ha_day_id ha = Some (d_id d) \<and> ?P d (Some ha)) \<or>
           ((\<forall>ha\<in>set (homework_assignments db). ha_day_id ha \<noteq> Some (d_id d)) \<and> ?P d None))"
    by (rule bex_left_join[where P = ?P])
  also have "\<dots> \<longleftrightarrow> key_has_titled_homework db k"
    by (auto simp: key_has_titled_homework_def list_ex_iff truthy_def)
  finally show ?thesis .
qed

lemma key_in_rows_iff:
  "k \<in> row_key ` set (homework_query eng db) \<longleftrightarrow>
     (\<exists>d\<in>set (days db). d_module d \<noteq> None \<and> (d_module d, d_day_number d) = k)"
proof -
  let ?P = "\<lambda>d (hao :: homework_assignment option). d_module d \<noteq> None \<and> (d_module d, d_day_number d) = k"
  have "k \<in> row_key ` set (homework_query eng db) \<longleftrightarrow>
        (\<exists>r\<in>set (homework_query eng db). (h_module r, h_day_number r) = k)"
    by (auto simp: row_key_def image_iff)
  also have "\<dots> \<longleftrightarrow>
        (\<exists>p\<in>set (left_join (days db) (\<lambda>d ha. ha_day_id ha = Some (d_id d)) (homework_assignments db)). ?P (fst p) (snd p))"
    using homework_rows_ex[of eng db "\<lambda>m n t. (m, n) = k"] by simp
  also have "\<dots> \<longleftrightarrow> (\<exists>d\<in>set (days db).
           (\<exists>ha\<in>set (homework_assignments db). ha_day_id ha = Some (d_id d) \<and> ?P d (Some ha)) \<or>
           ((\<forall>ha\<in>set (homework_assignments db). ha_day_id ha \<noteq> Some (d_id d)) \<and> ?P d None))"
    by (rule bex_left_join[where P = ?P])
  also have "\<dots> \<longleftrightarrow> (\<exists>d\<in>set (days db). d_module d \<noteq> None \<and> (d_module d, d_day_number d) = k)"
    by blast
  finally show ?thesis .
qed

lemma query_row_key_present:
  assumes "r \<in> set (activities_query db)"
  shows "(module r, day_number r) \<in> row_key ` set (homework_query eng db)"
proof -
  from assms obtain j where j: "j \<in> set (activities_from db)" "activities_where j"
    and r: "r = activities_select j"
    by (auto simp: activities_query_def)
  from j(2) obtain d where d: "snd (fst j) = Some d" "d_module d \<noteq> None"
    by (auto simp: activities_where_def split: option.splits)
  have "fst j \<in> fst ` set (activities_from db)"
    using j(1) by (rule imageI)
  then have "fst j \<in> set (left_join (activities db) (\<lambda>a d. a_day_id a = Some (d_id d)) (days db))"
    by (simp only: activities_from_def fst_set_left_join)
  then have "(fst (fst j), Some d) \<in> set (left_join (activities db) (\<lambda>a d. a_day_id a = Some (d_id d)) (days db))"
    using d(1) by (metis prod.collapse)
  then have "d \<in> set (days db)"
    by (simp add: in_left_join)
  moreover have "(module r, day_number r) = (d_module d, d_day_number d)"
    by (simp add: r activities_select_def Let_def d(1))
  ultimately show ?thesis
    using d(2) by (simp only: key_in_rows_iff) blast
qed

lemma in_homework_from:
  "((d, hao), hto) \<in> set (homework_from db) \<longleftrightarrow>
     (d, hao) \<in> set (left_join (days db) (\<lambda>d ha. ha_day_id ha = Some (d_id d)) (homework_assignments db)) \<and>
     (case hto of
        None \<Rightarrow> \<forall>ht\<in>set (homework_tasks db).
                 \<not> (case hao of None \<Rightarrow> False | Some ha \<Rightarrow> ht_assignment_id ht = Some (ha_id ha))
      | Some ht \<Rightarrow> ht \<in> set (homework_tasks db) \<and>
                 (case hao of None \<Rightarrow> False | Some ha \<Rightarrow> ht_assignment_id ht = Some (ha_id ha)))"
  by (cases hao; cases hto; simp add: homework_from_def in_left_join)

lemma group_concat_all_None: "\<forall>v\<in>set vs. v = None \<Longrightarrow> group_concat vs sep = None"
  by (simp add: group_concat_def map_filter_all_None)

lemma homework_from_no_assignment:
  assumes none: "\<not> has_assignment db d"
    and j: "j \<in> set (homework_from db)" and same: "d_id (fst (fst j)) = d_id d"
  shows "snd (fst j) = None \<and> snd j = None"
proof -
  obtain p hto where "j = (p, hto)"
    by (cases j)
  moreover obtain d' hao where "p = (d', hao)"
    by (cases p)
  ultimately have split: "j = ((d', hao), hto)"
    by simp
  from j have mem: "((d', hao), hto) \<in> set (homework_from db)"
    by (simp add: split)
  from same have id: "d_id d' = d_id d"
    by (simp add: split)
  from mem have pair: "(d', hao) \<in> set (left_join (days db) (\<lambda>d ha. ha_day_id ha = Some (d_id d)) (homework_assignments db))"
    by (simp add: in_homework_from)
  have hao: "hao = None"
  proof (cases hao)
    case None
    then show ?thesis .
  next
    case (Some ha)
    with pair have "ha \<in> set (homework_assignments db)" "ha_day_id ha = Some (d_id d')"
      by (simp_all add: in_left_join)
    with none id show ?thesis
      by (simp add: has_assignment_def list_ex_iff)
  qed
  have "hto = None"
  proof (cases hto)
    case None
    then show ?thesis .
  next
    case (Some ht)
    with mem hao show ?thesis
      by (simp add: in_homework_from)
  qed
  with hao show ?thesis
    by (simp add: split)
qed

lemma group_tasks_no_assignment:
  assumes none: "\<not> has_assignment db d" and k: "fst k = d_id d"
  shows "h_homework_tasks (homework_select (scan_order eng (filter homework_where (homework_from db))) k) = None"
proof -
  have "\<forall>v\<in>set (map (\<lambda>j. Option.bind (snd j) ht_task)
                     (filter (\<lambda>j. group_key_of j = k)
                        (scan_order eng (filter homework_where (homework_from db))))). v = None"
  proof
    fix v
    assume "v \<in> set (map (\<lambda>j. Option.bind (snd j) ht_task)
                     (filter (\<lambda>j. group_key_of j = k)
                        (scan_order eng (filter homework_where (homework_from db)))))"
    then obtain j where j: "j \<in> set (homework_from db)" "group_key_of j = k"
      and v: "v = Option.bind (snd j) ht_task"
      by (auto simp: set_scan_order)
    from j(2) k have "d_id (fst (fst j)) = d_id d"
      by (auto simp: group_key_of_def Let_def)
    with homework_from_no_assignment [OF none j(1)] have "snd j = None"
      by simp
    then show "v = None"
      by (simp add: v)
  qed
  then show ?thesis
    by (simp add: homework_select_def Let_def group_concat_all_None)
qed

lemma no_homework_row_in_query:
  assumes d: "d \<in> set (days db)" and m: "d_module d \<noteq> None" and none: "\<not> has_assignment db d"
  shows "no_homework_row d \<in> set (homework_query eng db)"
proof -
  let ?j = "((d, None :: homework_assignment option), None :: homework_task option)"
  let ?js = "scan_order eng (filter homework_where (homework_from db))"
  have "(d, None) \<in> set (left_join (days db) (\<lambda>d ha. ha_day_id ha = Some (d_id d)) (homework_assignments db))"
    using d none by (simp add: in_left_join has_assignment_def list_ex_iff)
  then have j: "?j \<in> set (homework_from db)"
    by (simp add: in_homework_from)
  have w: "homework_where ?j"
    using m by (simp add: homework_where_def)
  have "homework_select ?js (group_key_of ?j) \<in> set (homework_query eng db)"
    unfolding set_homework_query using j w by blast
  moreover have "homework_select ?js (group_key_of ?j) = no_homework_row d"
    using group_tasks_no_assignment [OF none, of "group_key_of ?j" eng]
    by (simp add: homework_select_def no_homework_row_def group_key_of_def Let_def)
  ultimately show ?thesis
    by simp
qed

lemma rows_of_day_without_assignment:
  assumes none: "\<not> has_assignment db d" and r: "r \<in> set (homework_query eng db)" and id: "h_day_id r = d_id d"
  shows "h_homework_title r = None \<and> h_homework_tasks r = None"
proof -
  let ?js = "scan_order eng (filter homework_where (homework_from db))"
  from r obtain j where j: "j \<in> set (homework_from db)" and sel: "r = homework_select ?js (group_key_of j)"
    unfolding set_homework_query by blast
  from id have same: "d_id (fst (fst j)) = d_id d"
    by (simp add: sel homework_select_def group_key_of_def Let_def)
  with homework_from_no_assignment [OF none j] have "snd (fst j) = None"
    by simp
  then have "h_homework_title r = None"
    by (simp add: sel homework_select_def group_key_of_def Let_def)
  moreover have "h_homework_tasks r = None"
    unfolding sel using none
    by (rule group_tasks_no_assignment) (simp add: group_key_of_def Let_def same)
  ultimately show ?thesis
    by simp
qed

lemma filter_day_unique:
  assumes days: "distinct (map d_id (days db))" and d: "d \<in> set (days db)"
  shows "filter (\<lambda>d'. d_id d' = d_id d \<and> P d') (days db) = (if P d then [d] else [])"
proof -
  have inj: "inj_on d_id (set (days db))" and dist: "distinct (days db)"
    using days by (simp_all add: distinct_map)
  have same: "d_id d' = d_id d \<longleftrightarrow> d' = d" if "d' \<in> set (days db)" for d'
    using inj that d by (auto dest: inj_onD)
  have "filter (\<lambda>d'. d_id d' = d_id d \<and> P d') (days db) = filter (\<lambda>d'. d' = d \<and> P d) (days db)"
    by (rule filter_cong) (auto simp: same)
  also have "\<dots> = (if P d then filter (\<lambda>d'. d' = d) (days db) else [])"
    by simp
  also have "\<dots> = (if P d then [d] else [])"
    using dist d by (simp add: filter_eq_singleton)
  finally show ?thesis .
qed

lemma pairs_of_day_title:
  assumes days: "distinct (map d_id (days db))" and d: "d \<in> set (days db)"
    and m: "d_module d \<noteq> None" and some: "assignments_titled db d t \<noteq> []"
  shows "filter (\<lambda>p. d_module (fst p) \<noteq> None \<and>
                     (d_id (fst p), d_module (fst p), d_day_number (fst p), Option.bind (snd p) ha_title) =
                     (d_id d, d_module d, d_day_number d, t))
           (left_join (days db) (\<lambda>d ha. ha_day_id ha = Some (d_id d)) (homework_assignments db)) =
         map (\<lambda>ha. (d, Some ha)) (assignments_titled db d t)"
    (is "filter ?Q ?DH = _")
proof -
  let ?R = "\<lambda>d'. d_id d' = d_id d \<and> (d_module d' \<noteq> None \<and> d_module d' = d_module d \<and> d_day_number d' = d_day_number d)"
  let ?S = "\<lambda>p :: day \<times> homework_assignment option. Option.bind (snd p) ha_title = t"
  let ?ms = "filter (\<lambda>ha. ha_day_id ha = Some (d_id d)) (homework_assignments db)"
  have ms: "?ms \<noteq> []"
    using some by (auto simp: assignments_titled_def filter_empty_conv)
  have "filter ?Q ?DH = filter ?S (filter (\<lambda>p. ?R (fst p)) ?DH)"
    by (simp only: filter_filter) (rule filter_cong, auto)
  also have "filter (\<lambda>p. ?R (fst p)) ?DH =
             left_join (filter ?R (days db)) (\<lambda>d ha. ha_day_id ha = Some (d_id d)) (homework_assignments db)"
    by (rule filter_left_join_fst)
  also have "filter ?R (days db) = [d]"
    using filter_day_unique [OF days d] m by simp
  also have "left_join [d] (\<lambda>d ha. ha_day_id ha = Some (d_id d)) (homework_assignments db) =
             map (\<lambda>ha. (d, Some ha)) ?ms"
    using ms by (simp add: left_join_Cons left_join_Nil)
  also have "filter ?S (map (\<lambda>ha. (d, Some ha)) ?ms) = map (\<lambda>ha. (d, Some ha)) (assignments_titled db d t)"
    by (simp add: filter_map comp_def assignments_titled_def)
  finally show ?thesis .
qed

lemma group_of_day_title:
  assumes days: "distinct (map d_id (days db))" and d: "d \<in> set (days db)"
    and m: "d_module d \<noteq> None" and some: "assignments_titled db d t \<noteq> []"
  shows "filter (\<lambda>j. group_key_of j = (d_id d, d_module d, d_day_number d, t))
           (filter homework_where (homework_from db)) =
         left_join (map (\<lambda>ha. (d, Some ha)) (assignments_titled db d t))
           (\<lambda>dha ht. case snd dha of None \<Rightarrow> False | Some ha \<Rightarrow> ht_assignment_id ht = Some (ha_id ha))
           (homework_tasks db)"
proof -
  let ?Q = "\<lambda>p :: day \<times> homework_assignment option. d_module (fst p) \<noteq> None \<and>
                     (d_id (fst p), d_module (fst p), d_day_number (fst p), Option.bind (snd p) ha_title) =
                     (d_id d, d_module d, d_day_number d, t)"
  have "filter (\<lambda>j. group_key_of j = (d_id d, d_module d, d_day_number d, t))
           (filter homework_where (homework_from db)) =
        filter (\<lambda>j. ?Q (fst j)) (homework_from db)"
    by (simp only: filter_filter) (rule filter_cong, auto simp: group_key_of_def homework_where_def Let_def)
  also have "\<dots> = left_join (filter ?Q (left_join (days db) (\<lambda>d ha. ha_day_id ha = Some (d_id d)) (homework_assignments db)))
           (\<lambda>dha ht. case snd dha of None \<Rightarrow> False | Some ha \<Rightarrow> ht_assignment_id ht = Some (ha_id ha))
           (homework_tasks db)"
    unfolding homework_from_def by (rule filter_left_join_fst)
  also have "filter ?Q (left_join (days db) (\<lambda>d ha. ha_day_id ha = Some (d_id d)) (homework_assignments db)) =
             map (\<lambda>ha. (d, Some ha)) (assignments_titled db d t)"
    using days d m some by (rule pairs_of_day_title)
  finally show ?thesis .
qed

lemma homework_query_keys:
  "map (\<lambda>r. (h_day_id r, h_module r, h_day_number r, h_homework_title r)) (homework_query eng db) =
     remdups (sort (map group_key_of (filter homework_where (homework_from db))))"
  by (simp add: homework_query_def Let_def homework_select_def comp_def)

lemma distinct_homework_query_keys:
  "distinct (map (\<lambda>r. (h_day_id r, h_module r, h_day_number r, h_homework_title r)) (homework_query eng db))"
  by (simp only: homework_query_keys distinct_remdups)

lemma key_of_day_title:
  assumes days: "distinct (map d_id (days db))" and d: "d \<in> set (days db)"
    and j: "j \<in> set (homework_from db)" and id: "d_id (fst (fst j)) = d_id d"
  shows "group_key_of j = (d_id d, d_module d, d_day_number d, Option.bind (snd (fst j)) ha_title)"
proof -
  have "fst j \<in> fst ` set (homework_from db)"
    using j by (rule imageI)
  then have "fst j \<in> set (left_join (days db) (\<lambda>d ha. ha_day_id ha = Some (d_id d)) (homework_assignments db))"
    by (simp only: homework_from_def fst_set_left_join)
  then have "fst (fst j) \<in> fst ` set (left_join (days db) (\<lambda>d ha. ha_day_id ha = Some (d_id d)) (homework_assignments db))"
    by (rule imageI)
  then have mem: "fst (fst j) \<in> set (days db)"
    by (simp only: fst_set_left_join)
  have inj: "inj_on d_id (set (days db))"
    using days by (simp add: distinct_map)
  from inj id mem d have "fst (fst j) = d"
    by (rule inj_onD)
  then show ?thesis
    by (simp add: group_key_of_def Let_def)
qed

lemma row_of_day_title:
  assumes days: "distinct (map d_id (days db))" and d: "d \<in> set (days db)"
    and m: "d_module d \<noteq> None" and some: "assignments_titled db d t \<noteq> []"
  shows "filter (\<lambda>r. h_day_id r = d_id d \<and> h_homework_title r = t) (homework_query eng db) =
           [homework_select (scan_order eng (filter homework_where (homework_from db)))
              (d_id d, d_module d, d_day_number d, t)]"
proof -
  let ?k = "(d_id d, d_module d, d_day_number d, t)"
  let ?js = "filter homework_where (homework_from db)"
  let ?ks = "remdups (sort (map group_key_of ?js))"
  let ?on = "\<lambda>(dha :: day \<times> homework_assignment option) ht.
               case snd dha of None \<Rightarrow> False | Some ha \<Rightarrow> ht_assignment_id ht = Some (ha_id ha)"
  let ?as = "assignments_titled db d t"
  have group: "filter (\<lambda>j. group_key_of j = ?k) ?js =
               left_join (map (\<lambda>ha. (d, Some ha)) ?as) ?on (homework_tasks db)"
    using days d m some by (rule group_of_day_title)
  have img: "fst ` set (filter (\<lambda>j. group_key_of j = ?k) ?js) = set (map (\<lambda>ha. (d, Some ha)) ?as)"
    unfolding group by (rule fst_set_left_join)
  have "filter (\<lambda>j. group_key_of j = ?k) ?js \<noteq> []"
  proof
    assume e: "filter (\<lambda>j. group_key_of j = ?k) ?js = []"
    from img [unfolded e] have "set (map (\<lambda>ha. (d, Some ha)) ?as) = {}"
      by simp
    with some show False
      by simp
  qed
  then obtain j where "j \<in> set ?js" "group_key_of j = ?k"
    by (auto simp: filter_empty_conv)
  then have mem: "?k \<in> set ?ks"
    by force
  have only: "(fst k = d_id d \<and> snd (snd (snd k)) = t) \<longleftrightarrow> k = ?k" if "k \<in> set ?ks" for k
  proof -
    from that obtain j where j: "j \<in> set (homework_from db)" and k: "k = group_key_of j"
      by auto
    show ?thesis
    proof (cases "fst k = d_id d")
      case True
      then have "d_id (fst (fst j)) = d_id d"
        by (simp add: k group_key_of_def Let_def)
      with days d j have "k = (d_id d, d_module d, d_day_number d, Option.bind (snd (fst j)) ha_title)"
        unfolding k by (rule key_of_day_title)
      then show ?thesis
        by auto
    next
      case False
      then show ?thesis
        by auto
    qed
  qed
  have "filter (\<lambda>r. h_day_id r = d_id d \<and> h_homework_title r = t) (homework_query eng db) =
        map (homework_select (scan_order eng ?js)) (filter (\<lambda>k. fst k = d_id d \<and> snd (snd (snd k)) = t) ?ks)"
    by (simp add: homework_query_def Let_def filter_map comp_def homework_select_def)
  also have "filter (\<lambda>k. fst k = d_id d \<and> snd (snd (snd k)) = t) ?ks = filter (\<lambda>k. k = ?k) ?ks"
    by (rule filter_cong) (simp_all add: only)
  also have "\<dots> = [?k]"
    using mem by (simp add: filter_eq_singleton)
  finally show ?thesis
    by simp
qed

lemma tasks_of_day_title:
  assumes days: "distinct (map d_id (days db))" and d: "d \<in> set (days db)"
    and m: "d_module d \<noteq> None" and some: "assignments_titled db d t \<noteq> []"
  shows "\<exists>ts. mset ts = mset (concat (map (tasks_of db) (assignments_titled db d t))) \<and>
           h_homework_tasks (homework_select (scan_order eng (filter homework_where (homework_from db)))
                               (d_id d, d_module d, d_day_number d, t)) =
             (if ts = [] then None else Some (join '' | '' ts))"
proof -
  let ?k = "(d_id d, d_module d, d_day_number d, t)"
  let ?js = "filter homework_where (homework_from db)"
  let ?on = "\<lambda>(dha :: day \<times> homework_assignment option) ht.
               case snd dha of None \<Rightarrow> False | Some ha \<Rightarrow> ht_assignment_id ht = Some (ha_id ha)"
  let ?as = "assignments_titled db d t"
  let ?ts = "List.map_filter (\<lambda>v. v) (map (\<lambda>j. Option.bind (snd j) ht_task)
               (filter (\<lambda>j. group_key_of j = ?k) (scan_order eng ?js)))"
  have group: "filter (\<lambda>j. group_key_of j = ?k) ?js =
               left_join (map (\<lambda>ha. (d, Some ha)) ?as) ?on (homework_tasks db)"
    using days d m some by (rule group_of_day_title)
  have "List.map_filter (\<lambda>v. v) (map (\<lambda>j. Option.bind (snd j) ht_task)
          (filter (\<lambda>j. group_key_of j = ?k) ?js)) = concat (map (tasks_of db) ?as)"
    unfolding group tasks_left_join by (simp add: comp_def tasks_of_def [abs_def])
  then have "mset ?ts = mset (concat (map (tasks_of db) ?as))"
    by (simp only: group_tasks_scan)
  moreover have "h_homework_tasks (homework_select (scan_order eng ?js) ?k) =
                   (if ?ts = [] then None else Some (join '' | '' ?ts))"
    by (simp add: homework_select_def group_concat_def Let_def)
  ultimately show ?thesis
    by blast
qed

lemma titled_row_origin:
  assumes r: "r \<in> set (homework_query eng db)" and t: "truthy (h_homework_title r)"
  shows "\<exists>d\<in>set (days db). \<exists>ha\<in>set (homework_assignments db).
           d_module d \<noteq> None \<and> (d_module d, d_day_number d) = row_key r \<and>
           ha_day_id ha = Some (d_id d) \<and> truthy (ha_title ha) \<and>
           h_day_id r = d_id d \<and> h_homework_title r = ha_title ha"
proof -
  let ?js = "scan_order eng (filter homework_where (homework_from db))"
  from r obtain j where j: "j \<in> set (homework_from db)" and w: "homework_where j"
    and sel: "r = homework_select ?js (group_key_of j)"
    unfolding set_homework_query by blast
  obtain d hao hto where split: "j = ((d, hao), hto)"
    by (metis prod.collapse)
  from j have pair: "(d, hao) \<in> set (left_join (days db) (\<lambda>d ha. ha_day_id ha = Some (d_id d)) (homework_assignments db))"
    by (simp add: split in_homework_from)
  have cols: "h_day_id r = d_id d" "row_key r = (d_module d, d_day_number d)"
    "h_homework_title r = Option.bind hao ha_title"
    by (simp_all add: sel split homework_select_def group_key_of_def row_key_def Let_def)
  from t cols(3) obtain ha where hao: "hao = Some ha"
    by (cases hao) (simp_all add: truthy_def)
  from pair have "d \<in> set (days db)" "ha \<in> set (homework_assignments db)" "ha_day_id ha = Some (d_id d)"
    by (simp_all add: hao in_left_join)
  moreover have "d_module d \<noteq> None"
    using w by (simp add: split homework_where_def)
  moreover have "h_homework_title r = ha_title ha" "truthy (ha_title ha)"
    using t cols(3) by (simp_all add: hao)
  ultimately show ?thesis
    using cols(1,2) by auto
qed

lemma distinct_titled_rows:
  "distinct (map (\<lambda>r. (h_day_id r, h_homework_title r)) (titled_rows (homework_query eng db) k))"
proof -
  let ?key = "\<lambda>r. (h_day_id r, h_module r, h_day_number r, h_homework_title r)"
  have all: "distinct (homework_query eng db)" "inj_on ?key (set (homework_query eng db))"
    using distinct_homework_query_keys [of eng db] by (simp_all add: distinct_map)
  have "inj_on (\<lambda>r. (h_day_id r, h_homework_title r)) (set (titled_rows (homework_query eng db) k))"
  proof (rule inj_onI)
    fix r1 r2
    assume r1: "r1 \<in> set (titled_rows (homework_query eng db) k)"
      and r2: "r2 \<in> set (titled_rows (homework_query eng db) k)"
      and eq: "(h_day_id r1, h_homework_title r1) = (h_day_id r2, h_homework_title r2)"
    from r1 r2 have mem: "r1 \<in> set (homework_query eng db)" "r2 \<in> set (homework_query eng db)"
      and key: "row_key r1 = k" "row_key r2 = k"
      by (simp_all add: titled_rows_def)
    from key have "row_key r1 = row_key r2"
      by simp
    with eq have "?key r1 = ?key r2"
      by (simp add: row_key_def)
    with all(2) mem show "r1 = r2"
      by (simp add: inj_on_def)
  qed
  moreover have "distinct (titled_rows (homework_query eng db) k)"
    using all(1) by (simp add: titled_rows_def)
  ultimately show ?thesis
    by (simp add: distinct_map)
qed

subsection \<open>The homework lookup\<close>

lemma tasks_or_empty: "(if truthy v then fmt_str v else []) = (case v of None \<Rightarrow> [] | Some s \<Rightarrow> s)"
  by (auto simp: truthy_def fmt_str_def split: option.splits)

lemma homework_step_lookup:
  "homework_step row m k =
     (if row_key row = k
      then Some ((case m k of None \<Rightarrow> [] | Some xs \<Rightarrow> xs) @ (if truthy (h_homework_title row) then [row_item row] else []))
      else m k)"
  by (auto simp: homework_step_def row_key_def row_item_def Let_def tasks_or_empty split: option.splits)

lemma homework_step_untitled:
  "h_homework_title r = None \<Longrightarrow>
     homework_step r m = (if m (row_key r) = None then m(row_key r \<mapsto> []) else m)"
  by (simp add: homework_step_def row_key_def truthy_def Let_def)

lemma build_homework_by_day_lookup:
  "build_homework_by_day rows m k =
     (if k \<in> row_key ` set rows \<or> m k \<noteq> None
      then Some ((case m k of None \<Rightarrow> [] | Some xs \<Rightarrow> xs) @ map row_item (titled_rows rows k))
      else None)"
proof (induction rows arbitrary: m)
  case Nil
  then show ?case by (auto simp: titled_rows_def)
next
  case (Cons row rows)
  show ?case
    by (simp add: Cons.IH homework_step_lookup titled_rows_def)
qed

lemma homework_by_day_lookup:
  "homework_by_day rows k =
     (if k \<in> row_key ` set rows then Some (map row_item (titled_rows rows k)) else None)"
  by (simp add: homework_by_day_def build_homework_by_day_lookup)

subsection \<open>The lines of a chunk\<close>

lemma header_not_homework: "p \<in> set (header_parts a) \<Longrightarrow> \<not> is_homework_line p"
  by (auto simp: header_parts_def is_homework_line_def)

lemma optional_not_homework: "p \<in> set (optional_parts a) \<Longrightarrow> \<not> is_homework_line p"
  by (auto simp: optional_parts_def optional_part_def is_homework_line_def split: if_splits)

lemma header_parts_length: "length (header_parts a) = 3"
  by (simp add: header_parts_def)

lemma homework_parts_cases:
  "homework_parts hbd a = Inr hw \<Longrightarrow>
     hw = (if late_session a \<and> (\<exists>items. hbd (module a, day_number a) = Some items \<and> items \<noteq> [])
           then [''Homework: '' @ hw_text (the (hbd (module a, day_number a)))] else [])"
  by (auto simp: homework_parts_def late_session_def Let_def split: option.splits if_splits)

lemma homework_parts_shape:
  "homework_parts hbd a = Inr hw \<Longrightarrow> hw = [] \<or> (\<exists>items. hw = [''Homework: '' @ hw_text items])"
  by (auto simp: homework_parts_def Let_def split: option.splits if_splits)

lemma content_parts_Inr:
  "content_parts hbd a = Inr parts \<Longrightarrow>
     \<exists>hw. homework_parts hbd a = Inr hw \<and> parts = header_parts a @ optional_parts a @ hw"
  by (auto simp: content_parts_def split: sum.splits)

lemma has_homework_line_iff:
  assumes "content_parts hbd a = Inr parts"
  shows "has_homework_line parts \<longleftrightarrow>
           late_session a \<and> (\<exists>items. hbd (module a, day_number a) = Some items \<and> items \<noteq> [])"
proof -
  from assms obtain hw where hw: "homework_parts hbd a = Inr hw"
    and parts: "parts = header_parts a @ optional_parts a @ hw"
    using content_parts_Inr by blast
  have "has_homework_line parts \<longleftrightarrow> list_ex is_homework_line hw"
    using header_not_homework optional_not_homework
    by (auto simp: parts has_homework_line_def list_ex_iff)
  also have "\<dots> \<longleftrightarrow> late_session a \<and> (\<exists>items. hbd (module a, day_number a) = Some items \<and> items \<noteq> [])"
    using homework_parts_cases[OF hw] by (auto simp: is_homework_line_def)
  finally show ?thesis .
qed

lemma hw_text_rows:
  "hw_text (map row_item (titled_rows rows k)) =
     join ''; '' (map (\<lambda>r. fmt_str (h_homework_title r) @ '': '' @
                            (case h_homework_tasks r of None \<Rightarrow> [] | Some s \<Rightarrow> s))
                   (titled_rows rows k))"
proof -
  have "filter (\<lambda>hw. title hw \<noteq> []) (map row_item (titled_rows rows k)) = map row_item (titled_rows rows k)"
    by (rule filter_True)
       (auto simp: titled_rows_def row_item_def truthy_def fmt_str_def split: option.splits)
  then show ?thesis
    by (simp add: hw_text_def row_item_def comp_def)
qed

lemma homework_line_format:
  assumes late: "late_session a" and some: "titled_rows rows (module a, day_number a) \<noteq> []"
  shows "content_parts (homework_by_day rows) a =
           Inr (header_parts a @ optional_parts a @
                [''Homework: '' @
                 join ''; '' (map (\<lambda>r. fmt_str (h_homework_title r) @ '': '' @
                                        (case h_homework_tasks r of None \<Rightarrow> [] | Some s \<Rightarrow> s))
                               (titled_rows rows (module a, day_number a)))])"
proof -
  let ?k = "(module a, day_number a)"
  from some obtain r where "r \<in> set rows" "row_key r = ?k"
    by (auto simp: titled_rows_def filter_empty_conv)
  then have "?k \<in> row_key ` set rows"
    by (metis imageI)
  then have look: "homework_by_day rows ?k = Some (map row_item (titled_rows rows ?k))"
    by (simp add: homework_by_day_lookup)
  from late obtain n where n: "sequence_order a = Some n" "3 \<le> n"
    by (auto simp: late_session_def split: option.splits)
  have "homework_parts (homework_by_day rows) a =
          Inr [''Homework: '' @ hw_text (map row_item (titled_rows rows ?k))]"
    using some by (simp add: homework_parts_def look n)
  then show ?thesis
    by (simp add: content_parts_def hw_text_rows)
qed

lemma build_chunk_Inr:
  "build_chunk hbd a = Inr c \<Longrightarrow>
     \<exists>parts. content_parts hbd a = Inr parts \<and> c_searchable_content c = join newline parts \<and>
       c_day_theme c = day_theme a \<and> c_module c = module a \<and> c_day c = day_number a \<and>
       c_session_number c = sequence_order a \<and> c_id c = ''curr-'' @ py_str_int (activity_id a)"
  by (auto simp: build_chunk_def split: sum.splits)

lemma build_chunk_total:
  "sequence_order a \<noteq> None \<Longrightarrow> \<exists>c. build_chunk hbd a = Inr c"
  by (auto simp: build_chunk_def content_parts_def homework_parts_def Let_def split: option.splits sum.splits)

lemma build_chunk_TypeError:
  "build_chunk hbd a = Inl e \<longleftrightarrow> hbd (module a, day_number a) \<noteq> None \<and> sequence_order a = None"
  by (cases e)
     (auto simp: build_chunk_def content_parts_def homework_parts_def Let_def split: option.splits sum.splits)

subsection \<open>The loop over the activities\<close>

lemma build_chunks_Inr:
  "build_chunks hbd rows = Inr cs \<Longrightarrow> list_all2 (\<lambda>a c. build_chunk hbd a = Inr c) rows cs"
  by (induction rows arbitrary: cs) (auto split: sum.splits)

lemma build_chunks_columns:
  assumes "build_chunks hbd rows = Inr cs"
  shows "map chunk_order_key cs = map order_key rows"
    and "map c_id cs = map (\<lambda>a. ''curr-'' @ py_str_int (activity_id a)) rows"
    and "length cs = length rows"
proof -
  have all2: "list_all2 (\<lambda>a c. build_chunk hbd a = Inr c) rows cs"
    using assms by (rule build_chunks_Inr)
  then show "length cs = length rows"
    by (simp add: list_all2_lengthD)
  from all2 show "map chunk_order_key cs = map order_key rows"
    by (induction rule: list_all2_induct)
       (auto simp: chunk_order_key_def order_key_def dest!: build_chunk_Inr)
  from all2 show "map c_id cs = map (\<lambda>a. ''curr-'' @ py_str_int (activity_id a)) rows"
    by (induction rule: list_all2_induct) (auto dest!: build_chunk_Inr)
qed

lemma build_chunks_total:
  "list_all (\<lambda>a. sequence_order a \<noteq> None) rows \<Longrightarrow> \<exists>cs. build_chunks hbd rows = Inr cs"
proof (induction rows)
  case Nil
  show ?case by simp
next
  case (Cons a rows)
  then obtain cs where cs: "build_chunks hbd rows = Inr cs"
    by auto
  from Cons.prems have "sequence_order a \<noteq> None"
    by simp
  then obtain c where "build_chunk hbd a = Inr c"
    using build_chunk_total by blast
  with cs show ?case
    by simp
qed

lemma build_chunks_TypeError:
  "build_chunks hbd rows = Inl TypeError \<longleftrightarrow> (\<exists>a\<in>set rows. build_chunk hbd a = Inl TypeError)"
proof (induction rows)
  case Nil
  show ?case by simp
next
  case (Cons a rows)
  have one: "e = TypeError" for e :: error
    by (cases e) simp
  show ?case
  proof (cases "build_chunk hbd a")
    case (Inl e)
    with one [of e] show ?thesis by simp
  next
    case (Inr c)
    with Cons.IH one show ?thesis
      by (cases "build_chunks hbd rows") auto
  qed
qed

text \<open>
  The run raises exactly when a row of the first query has a NULL sequence order: the key
  of every such row is in the lookup, so the comparison with 3 is always reached.
\<close>

lemma null_sequence_order_raises:
  "export_chunks eng db = Inl TypeError \<longleftrightarrow> (\<exists>r\<in>set (activities_query db). sequence_order r = None)"
proof -
  have "build_chunk (homework_by_day (homework_query eng db)) r = Inl TypeError \<longleftrightarrow> sequence_order r = None"
    if "r \<in> set (activities_query db)" for r
    using query_row_key_present [OF that]
    by (simp add: build_chunk_TypeError homework_by_day_lookup)
  then show ?thesis
    by (simp add: export_chunks_def build_chunks_TypeError)
qed

text \<open>The order of the scan shows in the output: the two engines give different chunks.\<close>

lemma engine_order_matters:
  "export_chunks table_order db_example \<noteq> export_chunks reverse_order db_example"
  by code_simp

section \<open>The claims\<close>

subsection \<open>C1: when the Homework line is present\<close>

text \<open>
  Claim C1, as the code has it: for every activity row whose lines are built without an
  exception, over the homework lookup of the database, the lines contain a Homework
  line if and only if the sequence order is at least 3 and some day with the row's
  (module, day number) has a homework assignment whose title is neither NULL nor empty.
  The specification asks only for a non-null title; the code tests the truth value of the
  title, so an assignment with the empty title does not count.
\<close>

theorem homework_line_iff:
  assumes "content_parts (homework_by_day (homework_query eng db)) a = Inr parts"
  shows "has_homework_line parts \<longleftrightarrow>
           late_session a \<and> key_has_titled_homework db (module a, day_number a)"
proof -
  let ?k = "(module a, day_number a)"
  have "(\<exists>items. homework_by_day (homework_query eng db) ?k = Some items \<and> items \<noteq> []) \<longleftrightarrow>
          titled_rows (homework_query eng db) ?k \<noteq> []"
    by (simp add: homework_by_day_lookup) (force simp: titled_rows_def filter_empty_conv)
  also have "\<dots> \<longleftrightarrow> (\<exists>r\<in>set (homework_query eng db). row_key r = ?k \<and> truthy (h_homework_title r))"
    by (auto simp: titled_rows_def filter_empty_conv)
  also have "\<dots> \<longleftrightarrow> key_has_titled_homework db ?k"
    by (rule titled_row_iff)
  finally show ?thesis
    using has_homework_line_iff[OF assms] by simp
qed

theorem homework_line_iff_witness:
  "content_parts (homework_by_day (homework_query table_order db_example)) row_42 = Inr parts_42 \<and>
   has_homework_line parts_42 \<and> late_session row_42 \<and>
   key_has_titled_homework db_example (module row_42, day_number row_42)"
proof -
  have parts: "content_parts (homework_by_day (homework_query table_order db_example)) row_42 = Inr parts_42"
    by code_simp
  have line: "has_homework_line parts_42"
    by code_simp
  from homework_line_iff [OF parts] line parts show ?thesis
    by simp
qed

text \<open>
  C1 as the specification words it fails: in \<open>db_empty_title\<close> the only activity has
  sequence order 3 and its day has a homework assignment whose title is the empty
  string, which is not NULL; its lines have no Homework line.
\<close>

theorem homework_line_nonnull_title_counterexample:
  "activities_query db_empty_title = [row_5] \<and>
   content_parts (homework_by_day (homework_query table_order db_empty_title)) row_5 = Inr parts_5 \<and>
   \<not> (has_homework_line parts_5 \<longleftrightarrow>
        late_session row_5 \<and> spec_key_has_homework db_empty_title (module row_5, day_number row_5))"
  by code_simp

subsection \<open>C2: the three header lines\<close>

text \<open>
  Claim C2: for every activity row that becomes a chunk, whatever its optional fields
  are, the first three lines are \<open>Module: <module>\<close>, \<open>Day <day number>: <day theme>\<close>
  and \<open>Session <sequence order>: <activity name>\<close>, and \<open>searchable_content\<close> begins
  with these three lines joined by newlines; the other lines, if any, follow after a
  newline.
\<close>

theorem searchable_content_header:
  assumes parts: "content_parts hbd a = Inr parts" and chunk: "build_chunk hbd a = Inr c"
  shows "take 3 parts =
           [''Module: '' @ fmt_str (module a),
            ''Day '' @ fmt_int (day_number a) @ '': '' @ fmt_str (day_theme a),
            ''Session '' @ fmt_int (sequence_order a) @ '': '' @ fmt_str (activity_name a)] \<and>
         c_searchable_content c =
           (''Module: '' @ fmt_str (module a)) @ newline @
           (''Day '' @ fmt_int (day_number a) @ '': '' @ fmt_str (day_theme a)) @ newline @
           (''Session '' @ fmt_int (sequence_order a) @ '': '' @ fmt_str (activity_name a)) @
           (if drop 3 parts = [] then [] else newline @ join newline (drop 3 parts))"
proof -
  from parts obtain hw where split: "parts = header_parts a @ (optional_parts a @ hw)"
    using content_parts_Inr by fastforce
  have content: "c_searchable_content c = join newline parts"
    using build_chunk_Inr [OF chunk] parts by auto
  have t: "take 3 parts = header_parts a" and d: "drop 3 parts = optional_parts a @ hw"
    by (simp_all add: split header_parts_length)
  have "parts = header_parts a @ drop 3 parts"
    using split d by simp
  then have "join newline parts = join newline (header_parts a @ drop 3 parts)"
    by simp
  then show ?thesis
    unfolding content t by (simp only: header_parts_def join_three)
qed

theorem searchable_content_header_witness:
  "content_parts hbd_example row_42 = Inr parts_42 \<and> build_chunk hbd_example row_42 = Inr chunk_42 \<and>
   take 3 parts_42 = [''Module: Solar'', ''Day 3: Photovoltaics'', ''Session 4: Panel Wiring Lab'']"
proof -
  have parts: "content_parts hbd_example row_42 = Inr parts_42"
    by code_simp
  have chunk: "build_chunk hbd_example row_42 = Inr chunk_42"
    by code_simp
  have eval: "fmt_str (module row_42) = ''Solar''" "fmt_int (day_number row_42) = ''3''"
    "fmt_str (day_theme row_42) = ''Photovoltaics''" "fmt_int (sequence_order row_42) = ''4''"
    "fmt_str (activity_name row_42) = ''Panel Wiring Lab''"
    by code_simp+
  from searchable_content_header [OF parts chunk] have
    "take 3 parts_42 = [''Module: Solar'', ''Day 3: Photovoltaics'', ''Session 4: Panel Wiring Lab'']"
    unfolding eval by simp
  with parts chunk show ?thesis
    by simp
qed

subsection \<open>C3: one chunk per qualifying activity\<close>

text \<open>
  Claim C3, as the code has it: for every database in which the identifiers of the days
  and of the learning blocks are unique and every activity that has a day with a module
  has a sequence order, the run completes, the number of chunks is the number of
  activities that have a day with a non-null module, and the chunk identifiers are, with
  multiplicity, the identifiers of exactly these activities: each of them gives one
  chunk, every other activity gives none, and nothing is merged. The specification
  claims this for every source state; the three conditions are needed, as the examples
  after the theorem show.
\<close>

theorem one_chunk_per_qualifying_activity:
  assumes days: "distinct (map d_id (days db))"
    and blocks: "distinct (map lb_id (learning_blocks db))"
    and seq: "list_all (\<lambda>a. has_module_day db a \<longrightarrow> a_sequence_order a \<noteq> None) (activities db)"
  shows "\<exists>chunks. export_chunks eng db = Inr chunks \<and>
           length chunks = length (filter (has_module_day db) (activities db)) \<and>
           mset (map c_id chunks) = mset (map activity_chunk_id (filter (has_module_day db) (activities db)))"
proof -
  let ?qual = "filter (has_module_day db) (activities db)"
  let ?hbd = "homework_by_day (homework_query eng db)"
  have rows: "activities_query db = sort_key order_key (map (joined_row db) ?qual)"
    using days blocks by (rule activities_rows_unique)
  have "list_all (\<lambda>a. sequence_order a \<noteq> None) (activities_query db)"
    using seq by (auto simp: rows list_all_iff joined_row_columns)
  then obtain chunks where run: "build_chunks ?hbd (activities_query db) = Inr chunks"
    using build_chunks_total by blast
  have len: "length chunks = length ?qual"
    using build_chunks_columns(3) [OF run] by (simp add: rows)
  have "map c_id chunks = map (\<lambda>r. ''curr-'' @ py_str_int (activity_id r)) (activities_query db)"
    using run by (rule build_chunks_columns(2))
  then have "mset (map c_id chunks) =
             mset (map (\<lambda>r. ''curr-'' @ py_str_int (activity_id r)) (map (joined_row db) ?qual))"
    by (simp add: rows del: map_map)
  also have "map (\<lambda>r. ''curr-'' @ py_str_int (activity_id r)) (map (joined_row db) ?qual) =
             map activity_chunk_id ?qual"
    by (simp add: joined_row_columns activity_chunk_id_def [abs_def] comp_def)
  finally show ?thesis
    using run len by (simp add: export_chunks_def)
qed

theorem one_chunk_per_qualifying_activity_witness:
  "distinct (map d_id (days db_example)) \<and> distinct (map lb_id (learning_blocks db_example)) \<and>
   list_all (\<lambda>a. has_module_day db_example a \<longrightarrow> a_sequence_order a \<noteq> None) (activities db_example) \<and>
   export_chunks table_order db_example = Inr [chunk_43, chunk_42] \<and>
   length (filter (has_module_day db_example) (activities db_example)) = 2 \<and>
   length (activities db_example) = 4"
proof -
  have days: "distinct (map d_id (days db_example))"
    by code_simp
  have blocks: "distinct (map lb_id (learning_blocks db_example))"
    by code_simp
  have seq: "list_all (\<lambda>a. has_module_day db_example a \<longrightarrow> a_sequence_order a \<noteq> None) (activities db_example)"
    by code_simp
  have run: "export_chunks table_order db_example = Inr [chunk_43, chunk_42]"
    by code_simp
  have total: "length (activities db_example) = 4"
    by code_simp
  from one_chunk_per_qualifying_activity [OF days blocks seq, of table_order] run
  have "length (filter (has_module_day db_example) (activities db_example)) = 2"
    by auto
  with days blocks seq run total show ?thesis
    by blast
qed

text \<open>
  C3 as the specification words it fails outside these conditions. In
  \<open>db_null_sequence\<close> two activities have a day with a module and one of them has no
  sequence order: the comparison with 3 raises TypeError and the run produces no chunk
  at all. In \<open>db_duplicate_block\<close> two learning blocks have the identifier the only
  activity refers to, and in \<open>db_duplicate_day\<close> two days have the identifier the only
  activity refers to: the join gives the activity two rows and the run two chunks.
\<close>

theorem chunk_count_counterexample:
  "length (filter (has_module_day db_null_sequence) (activities db_null_sequence)) = 2 \<and>
   export_chunks table_order db_null_sequence = Inl TypeError \<and>
   length (filter (has_module_day db_duplicate_block) (activities db_duplicate_block)) = 1 \<and>
   map_sum id (map c_id) (export_chunks table_order db_duplicate_block) = Inr [''curr-12'', ''curr-12''] \<and>
   length (filter (has_module_day db_duplicate_day) (activities db_duplicate_day)) = 1 \<and>
   map_sum id (map c_id) (export_chunks table_order db_duplicate_day) = Inr [''curr-13'', ''curr-13'']"
  by code_simp

subsection \<open>C4: the order of the chunks\<close>

text \<open>
  Claim C4: for every database on which the run completes, the chunks are in ascending
  order of (module, day number, sequence order), and they are the rows of the first
  query in the order of the query, one chunk per row.
\<close>

theorem chunks_in_query_order:
  assumes "export_chunks eng db = Inr chunks"
  shows "sorted (map chunk_order_key chunks) \<and>
         map chunk_order_key chunks = map order_key (activities_query db) \<and>
         map c_id chunks = map (\<lambda>a. ''curr-'' @ py_str_int (activity_id a)) (activities_query db)"
proof -
  have rows: "build_chunks (homework_by_day (homework_query eng db)) (activities_query db) = Inr chunks"
    using assms by (simp add: export_chunks_def)
  have "sorted (map order_key (activities_query db))"
    by (simp add: activities_query_def)
  with build_chunks_columns(1,2) [OF rows] show ?thesis
    by simp
qed

theorem chunks_in_query_order_witness:
  "export_chunks table_order db_example = Inr [chunk_43, chunk_42] \<and>
   sorted (map chunk_order_key [chunk_43, chunk_42]) \<and>
   map chunk_order_key [chunk_43, chunk_42] = [(Some ''Architecture'', Some 1, Some 1), (Some ''Solar'', Some 3, Some 4)]"
proof -
  have run: "export_chunks table_order db_example = Inr [chunk_43, chunk_42]"
    by code_simp
  have keys: "map chunk_order_key [chunk_43, chunk_42] =
      [(Some ''Architecture'', Some 1, Some 1), (Some ''Solar'', Some 3, Some 4)]"
    by code_simp
  from chunks_in_query_order [OF run] run keys show ?thesis
    by blast
qed

subsection \<open>C5: the two separators\<close>

text \<open>
  Claim C5, as the code has it, for every engine and every database with unique day
  identifiers. For every day with a module and every assignment of that day, the
  homework query has exactly one row with the day's identifier and the assignment's
  title; it has the module and the day number of the day, and its tasks column is the
  non-NULL task descriptions of all assignments of that day with that title, joined by
  \<open>'' | ''\<close> in the order in which the engine scans them (NULL when there is none). For
  every late activity whose key has titled rows, the line after the other lines is
  \<open>Homework: \<close> followed by the titled rows of the key, each rendered as
  \<open>title: tasks\<close>, joined by \<open>''; ''\<close>. The titled rows of a key differ pairwise in day
  or title, and each of them is the row of a day with that key and of the title of one
  of its assignments. The query groups by title, so there is one entry for each title
  of a day, not one for each assignment.
\<close>

theorem homework_separators:
  assumes days: "distinct (map d_id (days db))"
  shows "(\<forall>d\<in>set (days db). \<forall>ha\<in>set (homework_assignments db).
            d_module d \<noteq> None \<and> ha_day_id ha = Some (d_id d) \<longrightarrow>
            (\<exists>r ts. filter (\<lambda>r. h_day_id r = d_id d \<and> h_homework_title r = ha_title ha)
                       (homework_query eng db) = [r] \<and>
                     h_module r = d_module d \<and> h_day_number r = d_day_number d \<and>
                     mset ts = mset (concat (map (tasks_of db) (assignments_titled db d (ha_title ha)))) \<and>
                     h_homework_tasks r = (if ts = [] then None else Some (join '' | '' ts)))) \<and>
         (\<forall>a. late_session a \<and> titled_rows (homework_query eng db) (module a, day_number a) \<noteq> [] \<longrightarrow>
            content_parts (homework_by_day (homework_query eng db)) a =
              Inr (header_parts a @ optional_parts a @
                   [''Homework: '' @
                    join ''; '' (map (\<lambda>r. fmt_str (h_homework_title r) @ '': '' @
                                           (case h_homework_tasks r of None \<Rightarrow> [] | Some s \<Rightarrow> s))
                                  (titled_rows (homework_query eng db) (module a, day_number a)))])) \<and>
         (\<forall>k. distinct (map (\<lambda>r. (h_day_id r, h_homework_title r)) (titled_rows (homework_query eng db) k)) \<and>
              (\<forall>r\<in>set (titled_rows (homework_query eng db) k).
                 \<exists>d\<in>set (days db). \<exists>ha\<in>set (homework_assignments db).
                   d_module d \<noteq> None \<and> (d_module d, d_day_number d) = k \<and>
                   ha_day_id ha = Some (d_id d) \<and> truthy (ha_title ha) \<and>
                   h_day_id r = d_id d \<and> h_homework_title r = ha_title ha))"
proof -
  let ?js = "scan_order eng (filter homework_where (homework_from db))"
  have one: "\<exists>r ts. filter (\<lambda>r. h_day_id r = d_id d \<and> h_homework_title r = ha_title ha)
                       (homework_query eng db) = [r] \<and>
                     h_module r = d_module d \<and> h_day_number r = d_day_number d \<and>
                     mset ts = mset (concat (map (tasks_of db) (assignments_titled db d (ha_title ha)))) \<and>
                     h_homework_tasks r = (if ts = [] then None else Some (join '' | '' ts))"
    if d: "d \<in> set (days db)" and ha: "ha \<in> set (homework_assignments db)"
      and cond: "d_module d \<noteq> None \<and> ha_day_id ha = Some (d_id d)" for d ha
  proof -
    let ?r = "homework_select ?js (d_id d, d_module d, d_day_number d, ha_title ha)"
    from ha cond have "ha \<in> set (assignments_titled db d (ha_title ha))"
      by (simp add: assignments_titled_def)
    then have some: "assignments_titled db d (ha_title ha) \<noteq> []"
      by auto
    from cond have m: "d_module d \<noteq> None"
      by simp
    have row: "filter (\<lambda>r. h_day_id r = d_id d \<and> h_homework_title r = ha_title ha)
                 (homework_query eng db) = [?r]"
      using days d m some by (rule row_of_day_title)
    obtain ts where ts: "mset ts = mset (concat (map (tasks_of db) (assignments_titled db d (ha_title ha))))"
      "h_homework_tasks ?r = (if ts = [] then None else Some (join '' | '' ts))"
      using tasks_of_day_title [OF days d m some, of eng] by blast
    have cols: "h_module ?r = d_module d" "h_day_number ?r = d_day_number d"
      by (simp_all add: homework_select_def Let_def)
    from row cols ts show ?thesis
      by blast
  qed
  have line: "content_parts (homework_by_day (homework_query eng db)) a =
              Inr (header_parts a @ optional_parts a @
                   [''Homework: '' @
                    join ''; '' (map (\<lambda>r. fmt_str (h_homework_title r) @ '': '' @
                                           (case h_homework_tasks r of None \<Rightarrow> [] | Some s \<Rightarrow> s))
                                  (titled_rows (homework_query eng db) (module a, day_number a)))])"
    if "late_session a \<and> titled_rows (homework_query eng db) (module a, day_number a) \<noteq> []" for a
    using that by (simp add: homework_line_format)
  have origin: "\<exists>d\<in>set (days db). \<exists>ha\<in>set (homework_assignments db).
                   d_module d \<noteq> None \<and> (d_module d, d_day_number d) = k \<and>
                   ha_day_id ha = Some (d_id d) \<and> truthy (ha_title ha) \<and>
                   h_day_id r = d_id d \<and> h_homework_title r = ha_title ha"
    if "r \<in> set (titled_rows (homework_query eng db) k)" for r k
  proof -
    from that have r: "r \<in> set (homework_query eng db)" and t: "truthy (h_homework_title r)"
      and k: "row_key r = k"
      by (simp_all add: titled_rows_def)
    from titled_row_origin [OF r t] show ?thesis
      unfolding k .
  qed
  from one line origin distinct_titled_rows [of eng db] show ?thesis
    by (intro conjI ballI allI impI)
qed

text \<open>
  The example under the engine that scans the join backwards: the two tasks of the
  Reading assignment are joined in the reverse of their table order.
\<close>

theorem homework_separators_witness:
  "distinct (map d_id (days db_example)) \<and>
   day_7 \<in> set (days db_example) \<and> ha_reading \<in> set (homework_assignments db_example) \<and>
   d_module day_7 \<noteq> None \<and> ha_day_id ha_reading = Some (d_id day_7) \<and>
   filter (\<lambda>r. h_day_id r = 7 \<and> h_homework_title r = Some ''Reading'') (homework_query reverse_order db_example) =
     [\<lparr> h_day_id = 7, h_module = Some ''Solar'', h_day_number = Some 3,
        h_homework_title = Some ''Reading'', h_homework_tasks = Some ''Quiz prep | Read ch. 4'' \<rparr>] \<and>
   late_session row_42 \<and>
   content_parts (homework_by_day (homework_query reverse_order db_example)) row_42 =
     Inr (header_parts row_42 @ optional_parts row_42 @
          [''Homework: Practice: Wire a panel; Reading: Quiz prep | Read ch. 4''])"
proof -
  have days: "distinct (map d_id (days db_example))"
    by code_simp
  have d: "day_7 \<in> set (days db_example)" and ha: "ha_reading \<in> set (homework_assignments db_example)"
    and cond: "d_module day_7 \<noteq> None \<and> ha_day_id ha_reading = Some (d_id day_7)"
    by code_simp+
  have late: "late_session row_42 \<and>
      titled_rows (homework_query reverse_order db_example) (module row_42, day_number row_42) \<noteq> []"
    by code_simp
  have row: "filter (\<lambda>r. h_day_id r = 7 \<and> h_homework_title r = Some ''Reading'') (homework_query reverse_order db_example) =
     [\<lparr> h_day_id = 7, h_module = Some ''Solar'', h_day_number = Some 3,
        h_homework_title = Some ''Reading'', h_homework_tasks = Some ''Quiz prep | Read ch. 4'' \<rparr>]"
    by code_simp
  have rendered: "join ''; '' (map (\<lambda>r. fmt_str (h_homework_title r) @ '': '' @
                                    (case h_homework_tasks r of None \<Rightarrow> [] | Some s \<Rightarrow> s))
                 (titled_rows (homework_query reverse_order db_example) (module row_42, day_number row_42))) =
      ''Practice: Wire a panel; Reading: Quiz prep | Read ch. 4''"
    by code_simp
  note sep = homework_separators [OF days, of reverse_order]
  from sep late have "content_parts (homework_by_day (homework_query reverse_order db_example)) row_42 =
     Inr (header_parts row_42 @ optional_parts row_42 @
          [''Homework: '' @
           join ''; '' (map (\<lambda>r. fmt_str (h_homework_title r) @ '': '' @
                                  (case h_homework_tasks r of None \<Rightarrow> [] | Some s \<Rightarrow> s))
                         (titled_rows (homework_query reverse_order db_example) (module row_42, day_number row_42)))])"
    by blast
  then have "content_parts (homework_by_day (homework_query reverse_order db_example)) row_42 =
     Inr (header_parts row_42 @ optional_parts row_42 @
          [''Homework: Practice: Wire a panel; Reading: Quiz prep | Read ch. 4''])"
    unfolding rendered by simp
  with days d ha cond late row show ?thesis
    by blast
qed

text \<open>
  C5 as the specification words it fails. In \<open>db_same_title\<close> day 1 has two assignments
  titled Reading with one task each: the specification's text has two entries joined
  by \<open>''; ''\<close>, and the Homework line of the code has one entry with both tasks, in
  either order of the scan. In \<open>db_duplicate_day\<close> two days have the identifier 1, the
  module and the day number of the Reading assignment's day: the specification's text
  has the two tasks of the assignment, and the Homework line of the code has them twice.
\<close>

theorem homework_separators_same_title_counterexample:
  "activities_query db_same_title = [row_6] \<and>
   content_parts (homework_by_day (homework_query table_order db_same_title)) row_6 =
     Inr [''Module: Solar'', ''Day 1: Basics'', ''Session 3: Wrap-up'',
          ''Homework: Reading: Read ch. 4 | Quiz prep''] \<and>
   content_parts (homework_by_day (homework_query reverse_order db_same_title)) row_6 =
     Inr [''Module: Solar'', ''Day 1: Basics'', ''Session 3: Wrap-up'',
          ''Homework: Reading: Quiz prep | Read ch. 4''] \<and>
   ''Homework: '' @ spec_hw_text db_same_title day_1 =
     ''Homework: Reading: Read ch. 4; Reading: Quiz prep'' \<and>
   \<not> distinct (map d_id (days db_duplicate_day)) \<and>
   hd (activities_query db_duplicate_day) = row_13 \<and>
   content_parts (homework_by_day (homework_query table_order db_duplicate_day)) row_13 =
     Inr [''Module: Solar'', ''Day 1: Basics'', ''Session 3: Wrap-up'',
          ''Homework: Reading: Read ch. 4 | Quiz prep | Read ch. 4 | Quiz prep''] \<and>
   ''Homework: '' @ spec_hw_text db_duplicate_day day_1 =
     ''Homework: Reading: Read ch. 4 | Quiz prep''"
  by code_simp

subsection \<open>C6: running the export twice\<close>

text \<open>
  Claim C6: the tables and the order in which the engine scans their rows being the
  same in both runs (the queries are functions of the engine and of the database), a
  run that completes can be followed by a second run on the same database; the second
  run completes too, leaves in the output file exactly the bytes the first run wrote,
  whatever the file held before, and prints the same summary again.
\<close>

theorem export_twice_same_output:
  assumes first: "export_curriculum eng output_path db w = Inr w1"
  shows "\<exists>w2 chunks. export_chunks eng db = Inr chunks \<and>
           export_curriculum eng output_path db w1 = Inr w2 \<and>
           w_file w1 = Some (json_dump chunks) \<and> w_file w2 = w_file w1 \<and>
           w_stdout w1 = w_stdout w @ summary output_path chunks \<and>
           w_stdout w2 = w_stdout w1 @ summary output_path chunks"
proof -
  from first obtain chunks where chunks: "export_chunks eng db = Inr chunks"
    and w1: "w1 = \<lparr> w_file = Some (json_dump chunks), w_stdout = w_stdout w @ summary output_path chunks \<rparr>"
    by (auto simp: export_curriculum_def split: sum.splits)
  let ?w2 = "\<lparr> w_file = Some (json_dump chunks), w_stdout = w_stdout w1 @ summary output_path chunks \<rparr>"
  have "export_curriculum eng output_path db w1 = Inr ?w2"
    by (simp add: export_curriculum_def chunks)
  with chunks w1 show ?thesis
    by simp
qed

theorem export_twice_same_output_witness:
  "export_curriculum table_order ''data/curriculum_content.json'' db_example world_start = Inr world_once \<and>
   w_file (projr (export_curriculum table_order ''data/curriculum_content.json'' db_example world_once)) = w_file world_once \<and>
   \<not> isl (export_curriculum table_order ''data/curriculum_content.json'' db_example world_once)"
proof -
  have first: "export_curriculum table_order ''data/curriculum_content.json'' db_example world_start = Inr world_once"
    by code_simp
  from export_twice_same_output [OF first] first show ?thesis
    by auto
qed

subsection \<open>C7: a source without activities\<close>

text \<open>
  Claim C7: for every database without activities the run completes without an error,
  the output file is the empty JSON array \<open>[]\<close>, and the printed summary reports 0
  activities in total and 0 for each of Architecture, Solar and Insulation.
\<close>

theorem empty_source_exports_empty_array:
  assumes "activities db = []"
  shows "export_curriculum eng output_path db w =
           Inr \<lparr> w_file = Some ''[]'',
                 w_stdout = w_stdout w @
                   [CHR 0xC3, CHR 0xA2, CHR 0xC5, CHR 0x93, CHR 0xE2, CHR 0x80, CHR 0xA6] @
                   '' Exported 0 curriculum activities to '' @ output_path @ newline @
                   newline @ ''Breakdown:'' @ newline @
                   ''  Architecture: 0 activities'' @ newline @
                   ''  Solar: 0 activities'' @ newline @
                   ''  Insulation: 0 activities'' @ newline \<rparr>"
proof -
  have "activities_query db = []"
    by (simp add: activities_query_def activities_from_def assms left_join_Nil)
  then have chunks: "export_chunks eng db = Inr []"
    by (simp add: export_chunks_def)
  have dump: "json_dump [] = ''[]''"
    by (simp add: json_dump_def)
  have out: "summary output_path [] =
      [CHR 0xC3, CHR 0xA2, CHR 0xC5, CHR 0x93, CHR 0xE2, CHR 0x80, CHR 0xA6] @
      '' Exported 0 curriculum activities to '' @ output_path @ newline @
      newline @ ''Breakdown:'' @ newline @
      ''  Architecture: 0 activities'' @ newline @
      ''  Solar: 0 activities'' @ newline @
      ''  Insulation: 0 activities'' @ newline"
    by (simp add: summary_def breakdown_modules_def breakdown_line_def py_str_int_0)
  show ?thesis
    by (simp only: export_curriculum_def chunks dump out sum.case)
qed

theorem empty_source_exports_empty_array_witness:
  "activities db_no_activities = [] \<and>
   w_file (projr (export_curriculum table_order ''data/curriculum_content.json'' db_no_activities world_start)) = Some ''[]'' \<and>
   \<not> isl (export_curriculum table_order ''data/curriculum_content.json'' db_no_activities world_start)"
proof -
  have empty: "activities db_no_activities = []"
    by code_simp
  note run = empty_source_exports_empty_array [OF empty, of table_order "''data/curriculum_content.json''" world_start]
  show ?thesis
    unfolding run by (simp add: empty)
qed

subsection \<open>C8: a day without homework\<close>

text \<open>
  Claim C8, as the code has it: for every day with a non-null module and no homework
  assignment, the homework query has the row of that day with NULL title and NULL
  tasks; every row of that day has NULL title and tasks, and the loop step of such a
  row appends no entry (it only creates the key with an empty list when the key is
  new). The key of the day is therefore always present in the lookup: it maps to the
  entries of the titled rows with that key, which is the empty list when no day with
  that key has a titled assignment. The specification says the key may be absent; the
  code creates it before it looks at the title.
\<close>

theorem day_without_homework:
  assumes d: "d \<in> set (days db)" and m: "d_module d \<noteq> None" and none: "\<not> has_assignment db d"
  shows "no_homework_row d \<in> set (homework_query eng db) \<and>
         (\<forall>r\<in>set (homework_query eng db). h_day_id r = d_id d \<longrightarrow>
            h_homework_title r = None \<and> h_homework_tasks r = None \<and>
            (\<forall>m. homework_step r m = (if m (row_key r) = None then m(row_key r \<mapsto> []) else m))) \<and>
         homework_by_day (homework_query eng db) (d_module d, d_day_number d) =
           Some (map row_item (titled_rows (homework_query eng db) (d_module d, d_day_number d))) \<and>
         (\<not> key_has_titled_homework db (d_module d, d_day_number d) \<longrightarrow>
            homework_by_day (homework_query eng db) (d_module d, d_day_number d) = Some [])"
proof -
  let ?k = "(d_module d, d_day_number d)"
  have row: "no_homework_row d \<in> set (homework_query eng db)"
    using d m none by (rule no_homework_row_in_query)
  have rows: "\<forall>r\<in>set (homework_query eng db). h_day_id r = d_id d \<longrightarrow>
            h_homework_title r = None \<and> h_homework_tasks r = None \<and>
            (\<forall>m. homework_step r m = (if m (row_key r) = None then m(row_key r \<mapsto> []) else m))"
    using rows_of_day_without_assignment [OF none] homework_step_untitled by blast
  have "row_key (no_homework_row d) = ?k"
    by (simp add: row_key_def no_homework_row_def)
  with row have "?k \<in> row_key ` set (homework_query eng db)"
    by (metis imageI)
  then have present: "homework_by_day (homework_query eng db) ?k =
      Some (map row_item (titled_rows (homework_query eng db) ?k))"
    by (simp add: homework_by_day_lookup)
  have "titled_rows (homework_query eng db) ?k = []" if "\<not> key_has_titled_homework db ?k"
    using that titled_row_iff [of eng db ?k] by (auto simp: titled_rows_def filter_empty_conv)
  with present have empty: "\<not> key_has_titled_homework db ?k \<longrightarrow>
      homework_by_day (homework_query eng db) ?k = Some []"
    by simp
  from row rows present empty show ?thesis
    by (intro conjI)
qed

theorem day_without_homework_witness:
  "day_8 \<in> set (days db_example) \<and> d_module day_8 \<noteq> None \<and> \<not> has_assignment db_example day_8 \<and>
   no_homework_row day_8 \<in> set (homework_query table_order db_example) \<and>
   \<not> key_has_titled_homework db_example (d_module day_8, d_day_number day_8) \<and>
   homework_by_day (homework_query table_order db_example) (d_module day_8, d_day_number day_8) = Some []"
proof -
  have d: "day_8 \<in> set (days db_example)"
    by code_simp
  have m: "d_module day_8 \<noteq> None"
    by code_simp
  have none: "\<not> has_assignment db_example day_8"
    by code_simp
  have untitled: "\<not> key_has_titled_homework db_example (d_module day_8, d_day_number day_8)"
    by code_simp
  from day_without_homework [OF d m none] d m none untitled show ?thesis
    by blast
qed

text \<open>
  C8 as the specification words it fails on its last part: day 8 of \<open>db_example\<close> has a
  module and no homework assignment, and its key is in the lookup, with the empty list.
\<close>

theorem day_without_homework_key_counterexample:
  "day_8 \<in> set (days db_example) \<and> d_module day_8 \<noteq> None \<and> \<not> has_assignment db_example day_8 \<and>
   homework_by_day (homework_query table_order db_example) (d_module day_8, d_day_number day_8) \<noteq> None \<and>
   homework_by_day (homework_query table_order db_example) (Some ''Architecture'', Some 1) = Some []"
  by code_simp

subsection \<open>C9: the Homework line comes last\<close>

text \<open>
  Claim C9: for every chunk whose lines contain a Homework line, that line is the last
  of the lines, no earlier line is a Homework line, and \<open>searchable_content\<close> ends with
  a newline followed by it.
\<close>

theorem homework_line_last:
  assumes parts: "content_parts hbd a = Inr parts" and chunk: "build_chunk hbd a = Inr c"
    and line: "has_homework_line parts"
  shows "is_homework_line (last parts) \<and> \<not> has_homework_line (butlast parts) \<and>
         c_searchable_content c = join newline (butlast parts) @ newline @ last parts"
proof -
  from parts obtain hw where hw: "homework_parts hbd a = Inr hw"
    and split: "parts = (header_parts a @ optional_parts a) @ hw"
    using content_parts_Inr by fastforce
  have content: "c_searchable_content c = join newline parts"
    using build_chunk_Inr [OF chunk] parts by auto
  have before: "\<not> has_homework_line (header_parts a @ optional_parts a)"
    using header_not_homework optional_not_homework
    by (auto simp: has_homework_line_def list_ex_iff)
  with line split have "hw \<noteq> []"
    by auto
  with homework_parts_shape [OF hw] obtain items where items: "hw = [''Homework: '' @ hw_text items]"
    by blast
  have nonempty: "header_parts a @ optional_parts a \<noteq> []"
    by (simp add: header_parts_def)
  have "is_homework_line (last parts)"
    by (simp add: split items is_homework_line_def)
  moreover have "butlast parts = header_parts a @ optional_parts a"
    by (simp add: split items butlast_append)
  moreover have "join newline parts = join newline (header_parts a @ optional_parts a) @ newline @ last parts"
    unfolding split items using nonempty by (simp only: join_snoc last_snoc if_False)
  ultimately show ?thesis
    using before content by simp
qed

theorem homework_line_last_witness:
  "content_parts hbd_example row_42 = Inr parts_42 \<and> build_chunk hbd_example row_42 = Inr chunk_42 \<and>
   has_homework_line parts_42 \<and>
   last parts_42 = ''Homework: Practice: Wire a panel; Reading: Read ch. 4 | Quiz prep'' \<and>
   is_homework_line (last parts_42) \<and> \<not> has_homework_line (butlast parts_42)"
proof -
  have parts: "content_parts hbd_example row_42 = Inr parts_42"
    by code_simp
  have chunk: "build_chunk hbd_example row_42 = Inr chunk_42"
    by code_simp
  have line: "has_homework_line parts_42"
    by code_simp
  have last: "last parts_42 = ''Homework: Practice: Wire a panel; Reading: Read ch. 4 | Quiz prep''"
    by code_simp
  from homework_line_last [OF parts chunk line] parts chunk line last show ?thesis
    by blast
qed

subsection \<open>C10: a NULL day theme\<close>

text \<open>
  Claim C10: for every activity row whose day theme is NULL, the second line is
  \<open>Day <day number>: None\<close>, and the \<open>day_theme\<close> field of the chunk stays null (JSON
  \<open>null\<close> in the output).
\<close>

theorem null_theme_rendered_as_None:
  assumes theme: "day_theme a = None"
    and parts: "content_parts hbd a = Inr parts" and chunk: "build_chunk hbd a = Inr c"
  shows "parts ! 1 = ''Day '' @ fmt_int (day_number a) @ '': None'' \<and>
         c_day_theme c = None \<and> json_opt_str (c_day_theme c) = JNull"
proof -
  from parts obtain hw where split: "parts = header_parts a @ (optional_parts a @ hw)"
    using content_parts_Inr by fastforce
  have "parts ! 1 = header_parts a ! 1"
    by (simp add: split nth_append header_parts_length)
  also have "\<dots> = ''Day '' @ fmt_int (day_number a) @ '': None''"
    by (simp add: header_parts_def theme fmt_str_def)
  finally have line: "parts ! 1 = ''Day '' @ fmt_int (day_number a) @ '': None''" .
  have "c_day_theme c = None"
    using build_chunk_Inr [OF chunk] theme by auto
  with line show ?thesis
    by (simp add: json_opt_str_def)
qed

theorem null_theme_rendered_as_None_witness:
  "day_theme row_43 = None \<and> content_parts hbd_example row_43 = Inr parts_43 \<and>
   build_chunk hbd_example row_43 = Inr chunk_43 \<and>
   parts_43 ! 1 = ''Day 1: None'' \<and> c_day_theme chunk_43 = None"
proof -
  have theme: "day_theme row_43 = None"
    by code_simp
  have parts: "content_parts hbd_example row_43 = Inr parts_43"
    by code_simp
  have chunk: "build_chunk hbd_example row_43 = Inr chunk_43"
    by code_simp
  have eval: "fmt_int (day_number row_43) = ''1''"
    by code_simp
  from null_theme_rendered_as_None [OF theme parts chunk] theme parts chunk show ?thesis
    unfolding eval by simp
qed

end
